theory Spec2Isabelle
  imports Complex_Main
begin

section \<open>JavaScript numbers and library functions\<close>

text \<open>
  A JavaScript \<^verbatim>\<open>number\<close> is modelled as a real: the rounding of IEEE doubles, signed
  zeros, infinities and NaN are outside the model. A value that JavaScript leaves
  \<^verbatim>\<open>undefined\<close> (an array read out of range) or turns into NaN (arithmetic on
  \<^verbatim>\<open>undefined\<close>) is \<open>None\<close>.
\<close>

definition atan2 :: "real \<Rightarrow> real \<Rightarrow> real" where
  \<comment> \<open>\<^verbatim>\<open>Math.atan2(b, a)\<close>: the angle of the point \<open>(a, b)\<close>, in \<open>(-pi, pi]\<close>.\<close>
  "atan2 b a =
     (if 0 < a then arctan (b / a)
      else if a < 0 then (if 0 \<le> b then arctan (b / a) + pi else arctan (b / a) - pi)
      else if 0 < b then pi / 2
      else if b < 0 then - (pi / 2)
      else 0)"

definition js_rem :: "real \<Rightarrow> real \<Rightarrow> real" where
  \<comment> \<open>\<^verbatim>\<open>a % n\<close> on numbers, for a divisor \<open>n \<noteq> 0\<close>: the quotient is truncated towards
      zero, so the result has the sign of \<open>a\<close>.\<close>
  "js_rem a n = a - n * of_int (if 0 \<le> a / n then \<lfloor>a / n\<rfloor> else \<lceil>a / n\<rceil>)"

definition js_rem_int :: "int \<Rightarrow> int \<Rightarrow> int" where
  \<comment> \<open>\<^verbatim>\<open>a % n\<close> on integral numbers, for a divisor \<open>n \<noteq> 0\<close>.\<close>
  "js_rem_int a n = sgn a * (\<bar>a\<bar> mod \<bar>n\<bar>)"

definition js_index :: "'a list \<Rightarrow> int \<Rightarrow> 'a option" where
  \<comment> \<open>\<^verbatim>\<open>xs[i]\<close>: \<^verbatim>\<open>undefined\<close> out of range.\<close>
  "js_index xs i = (if 0 \<le> i \<and> i < int (length xs) then Some (xs ! nat i) else None)"

definition js_times :: "int option \<Rightarrow> int \<Rightarrow> int option" where
  \<comment> \<open>\<^verbatim>\<open>b * k\<close> where \<open>b\<close> may be \<^verbatim>\<open>undefined\<close>: the product is then NaN.\<close>
  "js_times b k = (case b of None \<Rightarrow> None | Some v \<Rightarrow> Some (v * k))"

section \<open>Score mapping of the detector (getScoreFromCoords)\<close>

text \<open>The fields \<^verbatim>\<open>x\<close> and \<^verbatim>\<open>y\<close> of a \<^verbatim>\<open>Point\<close> are \<open>px\<close> and \<open>py\<close>.\<close>

record Point =
  px :: real
  py :: real

definition CALIBRATION_TARGET_SIZE :: real where
  "CALIBRATION_TARGET_SIZE = 500"

definition CALIBRATION_POINTS_REQUIRED :: nat where
  "CALIBRATION_POINTS_REQUIRED = 4"

definition WORLD_POINTS_TARGET :: "Point list" where
  "WORLD_POINTS_TARGET =
     [\<lparr>px = CALIBRATION_TARGET_SIZE / 2, py = 10\<rparr>,
      \<lparr>px = CALIBRATION_TARGET_SIZE - 10, py = CALIBRATION_TARGET_SIZE / 2\<rparr>,
      \<lparr>px = CALIBRATION_TARGET_SIZE / 2, py = CALIBRATION_TARGET_SIZE - 10\<rparr>,
      \<lparr>px = 10, py = CALIBRATION_TARGET_SIZE / 2\<rparr>]"

definition segmentScores :: "int list" where
  "segmentScores = [20, 1, 18, 4, 13, 6, 10, 15, 2, 17, 3, 19, 7, 16, 8, 11, 14, 9, 12, 5]"

record Radii =
  doubleBull :: real
  singleBull :: real
  innerTriple :: real
  outerTriple :: real
  innerDouble :: real
  outerDouble :: real

definition radii :: Radii where
  "radii = \<lparr>doubleBull = 8, singleBull = 20, innerTriple = 120, outerTriple = 135,
            innerDouble = 200, outerDouble = 215\<rparr>"

definition boardCenterX :: real where
  "boardCenterX = CALIBRATION_TARGET_SIZE / 2"

definition boardCenterY :: real where
  "boardCenterY = CALIBRATION_TARGET_SIZE / 2"

record ScoreResult =
  score :: "int option"
  confidence :: real

definition distanceFromCenter :: "Point \<Rightarrow> real" where
  \<comment> \<open>The local \<^verbatim>\<open>distanceFromCenter\<close> of getScoreFromCoords.\<close>
  "distanceFromCenter p =
     (let dx = px p - boardCenterX; dy = py p - boardCenterY in sqrt (dx * dx + dy * dy))"

definition angleDeg :: "Point \<Rightarrow> real" where
  \<comment> \<open>The local \<^verbatim>\<open>angleDeg\<close> of getScoreFromCoords.\<close>
  "angleDeg p =
     (let dx = px p - boardCenterX; dy = py p - boardCenterY;
          angleRad0 = atan2 (- dy) dx;
          angleRad1 = (if angleRad0 < 0 then angleRad0 + 2 * pi else angleRad0);
          angleRad = js_rem (angleRad1 + pi / 2) (2 * pi)
      in angleRad * (180 / pi))"

definition segmentIndex :: "Point \<Rightarrow> int" where
  \<comment> \<open>The local \<^verbatim>\<open>segmentIndex\<close> of getScoreFromCoords.\<close>
  "segmentIndex p = \<lfloor>js_rem (angleDeg p + 9) 360 / 18\<rfloor>"

definition getScoreFromCoords :: "Point option \<Rightarrow> ScoreResult" where
  "getScoreFromCoords point =
     (case point of
        None \<Rightarrow> \<lparr>score = Some 0, confidence = 0\<rparr>
      | Some p \<Rightarrow>
          if distanceFromCenter p \<le> doubleBull radii then \<lparr>score = Some 50, confidence = 1\<rparr>
          else if distanceFromCenter p \<le> singleBull radii then \<lparr>score = Some 25, confidence = 1\<rparr>
          else if distanceFromCenter p > outerDouble radii then \<lparr>score = Some 0, confidence = 1\<rparr>
          else
            let baseScore = js_index segmentScores (segmentIndex p) in
            if distanceFromCenter p \<ge> innerDouble radii
            then \<lparr>score = js_times baseScore 2, confidence = 1\<rparr>
            else if distanceFromCenter p \<ge> innerTriple radii \<and> distanceFromCenter p \<le> outerTriple radii
            then \<lparr>score = js_times baseScore 3, confidence = 1\<rparr>
            else \<lparr>score = baseScore, confidence = 1\<rparr>)"

section \<open>Score mapping of the manual board (calculateScore)\<close>

definition DARTBOARD_NUMBERS :: "int list" where
  "DARTBOARD_NUMBERS = [20, 1, 18, 4, 13, 6, 10, 15, 2, 17, 3, 19, 7, 16, 8, 11, 14, 9, 12, 5]"

record DartboardConfig =
  OUTER_BORDER_RADIUS :: real
  DOUBLE_RING_OUTER_RADIUS :: real
  DOUBLE_RING_INNER_RADIUS :: real
  TRIPLE_RING_OUTER_RADIUS :: real
  TRIPLE_RING_INNER_RADIUS :: real
  OUTER_BULL_RADIUS :: real
  INNER_BULL_RADIUS :: real
  CENTER :: Point
  SVG_SIZE :: real
  WIRE_WIDTH :: real
  ROTATION_OFFSET :: real

definition DARTBOARD_CONFIG :: DartboardConfig where
  "DARTBOARD_CONFIG =
     \<lparr>OUTER_BORDER_RADIUS = 170, DOUBLE_RING_OUTER_RADIUS = 170, DOUBLE_RING_INNER_RADIUS = 162,
      TRIPLE_RING_OUTER_RADIUS = 99, TRIPLE_RING_INNER_RADIUS = 91, OUTER_BULL_RADIUS = 16,
      INNER_BULL_RADIUS = 635 / 100, CENTER = \<lparr>px = 170, py = 170\<rparr>, SVG_SIZE = 340,
      WIRE_WIDTH = 8 / 10, ROTATION_OFFSET = 9\<rparr>"

record DartScore =
  segment :: "int option"
  multiplier :: int
  points :: "int option"
  isBull :: "bool option"
  isOuterBull :: "bool option"

definition boardDistance :: "real \<Rightarrow> real \<Rightarrow> real" where
  \<comment> \<open>The local \<^verbatim>\<open>distance\<close> of calculateScore.\<close>
  "boardDistance x y =
     (let dx = x - px (CENTER DARTBOARD_CONFIG); dy = y - py (CENTER DARTBOARD_CONFIG)
      in sqrt (dx * dx + dy * dy))"

definition boardAngle :: "real \<Rightarrow> real \<Rightarrow> real" where
  \<comment> \<open>The local \<^verbatim>\<open>angle\<close> of calculateScore, after the correction of a negative remainder.\<close>
  "boardAngle x y =
     (let dx = x - px (CENTER DARTBOARD_CONFIG); dy = y - py (CENTER DARTBOARD_CONFIG);
          angle = js_rem (atan2 dy dx * 180 / pi + 99) 360
      in if angle < 0 then angle + 360 else angle)"

definition calculateScore :: "real \<Rightarrow> real \<Rightarrow> DartScore" where
  "calculateScore x y =
     (let distance = boardDistance x y in
      if distance \<le> INNER_BULL_RADIUS DARTBOARD_CONFIG
      then \<lparr>segment = Some 25, multiplier = 2, points = Some 50, isBull = Some True, isOuterBull = None\<rparr>
      else if distance \<le> OUTER_BULL_RADIUS DARTBOARD_CONFIG
      then \<lparr>segment = Some 25, multiplier = 1, points = Some 25, isBull = None, isOuterBull = Some True\<rparr>
      else
        let segmentIndex = js_rem_int \<lfloor>boardAngle x y / 18\<rfloor> 20;
            segmentNumber = js_index DARTBOARD_NUMBERS segmentIndex;
            multiplier =
              (if distance \<ge> TRIPLE_RING_INNER_RADIUS DARTBOARD_CONFIG
                  \<and> distance \<le> TRIPLE_RING_OUTER_RADIUS DARTBOARD_CONFIG then 3
               else if distance \<ge> DOUBLE_RING_INNER_RADIUS DARTBOARD_CONFIG
                  \<and> distance \<le> DOUBLE_RING_OUTER_RADIUS DARTBOARD_CONFIG then 2
               else 1)
        in if distance > OUTER_BORDER_RADIUS DARTBOARD_CONFIG
           then \<lparr>segment = Some 0, multiplier = 1, points = Some 0, isBull = None, isOuterBull = None\<rparr>
           else \<lparr>segment = segmentNumber, multiplier = multiplier,
                 points = js_times segmentNumber multiplier, isBull = None, isOuterBull = None\<rparr>)"

section \<open>Tip extraction (findDartTip)\<close>

text \<open>
  A contour is a \<^verbatim>\<open>cv.Mat\<close> of \<^verbatim>\<open>rows\<close> integer points (\<^verbatim>\<open>data32S\<close> holds their
  coordinates in pairs): a list of integer pairs. \<^verbatim>\<open>cv.moments\<close> is a function of the
  library, a parameter of the model.
\<close>

type_synonym Contour = "(int \<times> int) list"

record Moments =
  m00 :: real
  m10 :: real
  m01 :: real

definition contourPoint :: "int \<times> int \<Rightarrow> Point" where
  "contourPoint c = \<lparr>px = of_int (fst c), py = of_int (snd c)\<rparr>"

definition distanceSq :: "real \<Rightarrow> real \<Rightarrow> Point \<Rightarrow> real" where
  "distanceSq cX cY point =
     (let dx = px point - cX; dy = py point - cY in dx * dx + dy * dy)"

fun furthestLoop :: "real \<Rightarrow> real \<Rightarrow> Contour \<Rightarrow> Point option \<times> real \<Rightarrow> Point option \<times> real" where
  \<comment> \<open>The loop over the rows; the state is \<^verbatim>\<open>(furthestPoint, maxDistanceSq)\<close>.\<close>
  "furthestLoop cX cY [] st = st"
| "furthestLoop cX cY (c # cs) (furthestPoint, maxDistanceSq) =
     (let point = contourPoint c in
      if distanceSq cX cY point > maxDistanceSq
      then furthestLoop cX cY cs (Some point, distanceSq cX cY point)
      else furthestLoop cX cY cs (furthestPoint, maxDistanceSq))"

definition findDartTip :: "(Contour \<Rightarrow> Moments) \<Rightarrow> Contour \<Rightarrow> Point option" where
  "findDartTip cv_moments contour =
     (if contour = [] then None
      else
        let M = cv_moments contour in
        if m00 M = 0 then None
        else
          let cX = m10 M / m00 M; cY = m01 M / m00 M
          in fst (furthestLoop cX cY contour (None, -1)))"

fun lowestLoop :: "Contour \<Rightarrow> Point \<Rightarrow> Point" where
  "lowestLoop [] tip = tip"
| "lowestLoop (c # cs) tip =
     (let point = contourPoint c in
      if py point > py tip then lowestLoop cs point else lowestLoop cs tip)"

definition findDartTip_lowest :: "Contour \<Rightarrow> Point option" where
  \<comment> \<open>The findDartTip of the older variant of the detector: the point lowest on screen.\<close>
  "findDartTip_lowest contour =
     (if contour = [] then None
      else
        let tip = lowestLoop contour \<lparr>px = 0, py = -1\<rparr>
        in if py tip \<noteq> -1 then Some tip else None)"

section \<open>The detector component: state, library and environment\<close>

text \<open>
  The component's \<^verbatim>\<open>useState\<close> values, its refs and the part of its environment that the
  functions below touch are the fields of one record. A function of the component reads
  the \<^verbatim>\<open>useState\<close> values of the render it was created in (its argument \<open>s\<close>); a
  \<^verbatim>\<open>setX\<close> call changes the value only for the next render (the state it returns); a
  ref is read and written at once. Every call is taken to run in the closure of the latest
  render.

  A \<^verbatim>\<open>cv.Mat\<close> image is a value of the type \<open>'m\<close>; a clone of an image is the image.
  The debug image and the overlays drawn on the canvas are left out.
\<close>

record Dimensions =
  width :: nat
  height :: nat

record CalibrationData =
  imagePoints :: "Point list"
  worldPoints :: "Point list"
  homographyMatrix :: "real list option"
  sourceDimensions :: Dimensions

datatype 'm Shown = RawFeed 'm | WarpedFeed 'm

record 'm DetectorState =
  detectedTip :: "Point option"
  isConnected :: bool
  isCalibrating :: bool
  isStill :: bool
  calibrationData :: "CalibrationData option"
  cvLoaded :: bool
  error :: "string option"
  dimensions :: Dimensions
  clickedPoints :: "Point list"
  processingScheduled :: bool
  prevWarpedFrameRef :: "'m option"
  stillFrameBeforeDartRef :: "'m option"
  stillFrameAfterDartRef :: "'m option"
  lastDetectionTimeRef :: real
  justBecameStillRef :: bool
  largestContourRef :: "Contour option"
  contourCentroidRef :: "Point option"
  storage :: "string option"
    \<comment> \<open>the item \<^verbatim>\<open>dartboardCalibration\<close> of \<^verbatim>\<open>localStorage\<close>\<close>
  canvas :: "'m Shown option"
    \<comment> \<open>the image last shown on the canvas by \<^verbatim>\<open>cv.imshow\<close>\<close>
  detections :: "ScoreResult list list"
    \<comment> \<open>the arguments of the calls of \<^verbatim>\<open>onDetectionUpdate\<close>, oldest first\<close>
  detectAttempts :: nat
    \<comment> \<open>the number of console lines \<^verbatim>\<open>Attempting dart detection...\<close>, one for each call
        of detectDart\<close>

definition initialState :: "string option \<Rightarrow> 'm DetectorState" where
  \<comment> \<open>The initial values of \<^verbatim>\<open>useState\<close> and \<^verbatim>\<open>useRef\<close>, over a given stored item.\<close>
  "initialState stored =
     \<lparr>detectedTip = None, isConnected = False, isCalibrating = False, isStill = False,
      calibrationData = None, cvLoaded = False, error = None,
      dimensions = \<lparr>width = 640, height = 480\<rparr>, clickedPoints = [],
      processingScheduled = False, prevWarpedFrameRef = None, stillFrameBeforeDartRef = None,
      stillFrameAfterDartRef = None, lastDetectionTimeRef = 0, justBecameStillRef = False,
      largestContourRef = None, contourCentroidRef = None, storage = stored, canvas = None,
      detections = [], detectAttempts = 0\<rparr>"

datatype HomographyResult = Throws | NullMat | Mat nat nat "real list"

text \<open>
  The functions of OpenCV are parameters. \<open>warpPerspective\<close> stands for
  \<^verbatim>\<open>cv.matFromArray\<close> and \<^verbatim>\<open>cv.warpPerspective\<close> to the 500 x 500 target (\<open>None\<close>: an
  exception); \<open>meanDiff a b\<close> for \<^verbatim>\<open>cv.mean\<close> of the grey \<^verbatim>\<open>cv.absdiff\<close> of two
  images; \<open>diffContours c a b\<close> for the outer contours of the difference of two images
  thresholded at \<open>c\<close> (\<open>None\<close>: an exception); \<open>findHomography\<close> for the RANSAC solve
  over the image and world points, giving the rows, columns and data of the matrix.
\<close>

record 'm OpenCV =
  warpPerspective :: "'m \<Rightarrow> real list \<Rightarrow> 'm option"
  meanDiff :: "'m \<Rightarrow> 'm \<Rightarrow> real"
  diffContours :: "real \<Rightarrow> 'm \<Rightarrow> 'm \<Rightarrow> Contour list option"
  contourArea :: "Contour \<Rightarrow> real"
  moments :: "Contour \<Rightarrow> Moments"
  findHomography :: "Point list \<Rightarrow> Point list \<Rightarrow> HomographyResult"

record 'm FrameInput =
  img :: 'm
    \<comment> \<open>the image loaded in the \<^verbatim>\<open>img\<close> element\<close>
  naturalWidth :: nat
  naturalHeight :: nat
  canvasPresent :: bool
  ctxPresent :: bool
  now :: real
    \<comment> \<open>\<^verbatim>\<open>performance.now()\<close> as processFrame reads it\<close>
  detectNow :: real
    \<comment> \<open>\<^verbatim>\<open>performance.now()\<close> as detectDart reads it, if it is called\<close>

section \<open>Calibration\<close>

definition resetCalibration :: "'m DetectorState \<Rightarrow> 'm DetectorState" where
  "resetCalibration t =
     t\<lparr>calibrationData := None, storage := None, error := None, clickedPoints := [],
       isCalibrating := False\<rparr>"

definition cancelCalibration :: "'m DetectorState \<Rightarrow> 'm DetectorState" where
  "cancelCalibration t = t\<lparr>isCalibrating := False, clickedPoints := [], error := None\<rparr>"

definition startCalibration :: "'m DetectorState \<Rightarrow> 'm DetectorState" where
  "startCalibration s =
     (if isConnected s
      then s\<lparr>clickedPoints := [], isCalibrating := True, error := None\<rparr>
      else s\<lparr>error := Some ''Connect to camera stream before calibrating.''\<rparr>)"

definition handleCanvasClick :: "bool \<Rightarrow> Point \<Rightarrow> 'm DetectorState \<Rightarrow> 'm DetectorState" where
  \<comment> \<open>\<open>newPoint\<close> is the click scaled to the canvas; the first argument tells whether
      \<^verbatim>\<open>canvasRef.current\<close> is set.\<close>
  "handleCanvasClick hasCanvas newPoint s =
     (if \<not> isCalibrating s then s
      else if length (clickedPoints s) \<ge> CALIBRATION_POINTS_REQUIRED then s
      else if \<not> hasCanvas then s
      else s\<lparr>clickedPoints := clickedPoints s @ [newPoint]\<rparr>)"

definition calculateAndStoreHomography ::
  "'m OpenCV \<Rightarrow> (CalibrationData \<Rightarrow> string) \<Rightarrow> 'm DetectorState \<Rightarrow> 'm DetectorState" where
  \<comment> \<open>\<open>JSON_stringify\<close> is \<^verbatim>\<open>JSON.stringify\<close> on calibration records.\<close>
  "calculateAndStoreHomography cv JSON_stringify s =
     (if \<not> cvLoaded s then s
      else if length (clickedPoints s) \<noteq> CALIBRATION_POINTS_REQUIRED then s
      else
        (case findHomography cv (clickedPoints s) WORLD_POINTS_TARGET of
           Throws \<Rightarrow> s\<lparr>error := Some ''Error during calibration calculation.''\<rparr>
         | NullMat \<Rightarrow>
             s\<lparr>error := Some ''Calibration failed. Could not calculate perspective. Try clicking points again.''\<rparr>
         | Mat rows cols data64F \<Rightarrow>
             if rows = 3 \<and> cols = 3
             then
               let newCalibration =
                     \<lparr>imagePoints = clickedPoints s, worldPoints = WORLD_POINTS_TARGET,
                      homographyMatrix = Some data64F, sourceDimensions = dimensions s\<rparr>
               in s\<lparr>calibrationData := Some newCalibration,
                     storage := Some (JSON_stringify newCalibration),
                     isCalibrating := False, clickedPoints := [], error := None\<rparr>
             else
               s\<lparr>error := Some ''Calibration failed. Could not calculate perspective. Try clicking points again.''\<rparr>))"

section \<open>Dart detection (detectDart)\<close>

fun largestLoop :: "(Contour \<Rightarrow> real) \<Rightarrow> Contour list \<Rightarrow> Contour option \<times> real
    \<Rightarrow> Contour option \<times> real" where
  \<comment> \<open>The filter loop; the state is \<^verbatim>\<open>(largestContour, maxArea)\<close>.\<close>
  "largestLoop area [] st = st"
| "largestLoop area (contour # rest) (largestContour, maxArea) =
     (if area contour > 500 \<and> area contour < 2000 \<and> area contour > maxArea
      then largestLoop area rest (Some contour, area contour)
      else largestLoop area rest (largestContour, maxArea))"

definition detectDart :: "'m OpenCV \<Rightarrow> real \<Rightarrow> 'm \<Rightarrow> 'm \<Rightarrow> 'm DetectorState \<Rightarrow> 'm DetectorState" where
  \<comment> \<open>\<open>tnow\<close> is \<^verbatim>\<open>performance.now()\<close> at a detected tip. An exception of the
      library before the filter loop is caught and logged.\<close>
  "detectDart cv tnow frameAfter frameBefore t0 =
     (let t1 = t0\<lparr>detectAttempts := Suc (detectAttempts t0), detectedTip := None,
                  largestContourRef := None, contourCentroidRef := None\<rparr>;
          t2 =
            (case diffContours cv 15 frameAfter frameBefore of
               None \<Rightarrow> t1
             | Some contours \<Rightarrow>
                 (case fst (largestLoop (contourArea cv) contours (None, 0)) of
                    None \<Rightarrow> t1\<lparr>largestContourRef := None, contourCentroidRef := None\<rparr>
                  | Some largestContour \<Rightarrow>
                      let t3 = t1\<lparr>largestContourRef := Some largestContour,
                                  contourCentroidRef := None\<rparr>;
                          tip = findDartTip (moments cv) largestContour;
                          M = moments cv largestContour;
                          t4 = (if m00 M \<noteq> 0
                                then t3\<lparr>contourCentroidRef :=
                                       Some \<lparr>px = m10 M / m00 M, py = m01 M / m00 M\<rparr>\<rparr>
                                else t3)
                      in (case tip of
                            Some tp \<Rightarrow>
                              t4\<lparr>detectedTip := Some tp, lastDetectionTimeRef := tnow,
                                 detections := detections t4 @ [[getScoreFromCoords (Some tp)]]\<rparr>
                          | None \<Rightarrow> t4)))
      in t2\<lparr>stillFrameBeforeDartRef := Some frameAfter\<rparr>)"

fun largestLoop_lowest :: "(Contour \<Rightarrow> real) \<Rightarrow> Contour list \<Rightarrow> Contour option \<times> real
    \<Rightarrow> Contour option \<times> real" where
  "largestLoop_lowest area [] st = st"
| "largestLoop_lowest area (contour # rest) (largestContour, maxArea) =
     (if area contour > maxArea \<and> area contour > 50
      then largestLoop_lowest area rest (Some contour, area contour)
      else largestLoop_lowest area rest (largestContour, maxArea))"

definition detectDart_lowest :: "'m OpenCV \<Rightarrow> 'm \<Rightarrow> 'm \<Rightarrow> 'm DetectorState \<Rightarrow> 'm DetectorState" where
  \<comment> \<open>The detectDart of the older variant of the detector.\<close>
  "detectDart_lowest cv frameAfter frameBefore t0 =
     (let t1 = t0\<lparr>detectAttempts := Suc (detectAttempts t0), detectedTip := None\<rparr>;
          t2 =
            (case diffContours cv 25 frameAfter frameBefore of
               None \<Rightarrow> t1
             | Some contours \<Rightarrow>
                 (case fst (largestLoop_lowest (contourArea cv) contours (None, 0)) of
                    None \<Rightarrow> t1
                  | Some largestContour \<Rightarrow>
                      (case findDartTip_lowest largestContour of
                         Some tp \<Rightarrow> t1\<lparr>detectedTip := Some tp\<rparr>
                       | None \<Rightarrow> t1)))
      in t2\<lparr>stillFrameBeforeDartRef := Some frameAfter\<rparr>)"

section \<open>Frame processing (processFrame)\<close>

definition motionThreshold :: real where
  "motionThreshold = 5 / 2"

definition detectionCooldownMs :: real where
  "detectionCooldownMs = 1000"

definition dimensionsChanged :: "CalibrationData \<Rightarrow> 'm FrameInput \<Rightarrow> bool" where
  "dimensionsChanged cd inp =
     (width (sourceDimensions cd) \<noteq> naturalWidth inp
      \<or> height (sourceDimensions cd) \<noteq> naturalHeight inp)"

definition checkDimensions :: "'m FrameInput \<Rightarrow> 'm DetectorState \<Rightarrow> 'm DetectorState \<Rightarrow> 'm DetectorState" where
  \<comment> \<open>The check of the source dimensions against the calibration of the render.\<close>
  "checkDimensions inp s t =
     (case calibrationData s of
        None \<Rightarrow> t
      | Some cd \<Rightarrow>
          if dimensionsChanged cd inp
          then resetCalibration (t\<lparr>error := Some ''Camera dimensions changed. Please recalibrate.''\<rparr>)
          else t)"

definition stillnessCheck :: "'m OpenCV \<Rightarrow> 'm FrameInput \<Rightarrow> 'm DetectorState \<Rightarrow> 'm
    \<Rightarrow> 'm DetectorState \<Rightarrow> bool \<times> 'm DetectorState" where
  \<comment> \<open>The stillness detection; the result is \<^verbatim>\<open>currentIsStill\<close> and the state.\<close>
  "stillnessCheck cv inp s warped t =
     (if now inp - lastDetectionTimeRef t > detectionCooldownMs
      then
        (case prevWarpedFrameRef t of
           None \<Rightarrow> (isStill s, t)
         | Some prev \<Rightarrow>
             let calculatedIsStill = (meanDiff cv warped prev < motionThreshold) in
             if calculatedIsStill \<noteq> isStill s
             then (calculatedIsStill, t\<lparr>isStill := calculatedIsStill\<rparr>)
             else (isStill s, t))
      else (True, if \<not> isStill s then t\<lparr>isStill := True\<rparr> else t))"

definition detectionTrigger :: "'m OpenCV \<Rightarrow> 'm FrameInput \<Rightarrow> 'm DetectorState \<Rightarrow> 'm \<Rightarrow> bool
    \<Rightarrow> 'm DetectorState \<Rightarrow> 'm DetectorState" where
  \<comment> \<open>The dart detection triggering logic.\<close>
  "detectionTrigger cv inp s warped currentIsStill t =
     (if currentIsStill \<and> \<not> isStill s \<and> now inp - lastDetectionTimeRef t > detectionCooldownMs
      then
        (case stillFrameBeforeDartRef t of
           Some before \<Rightarrow>
             detectDart cv (detectNow inp) warped before (t\<lparr>stillFrameAfterDartRef := Some warped\<rparr>)
         | None \<Rightarrow> t\<lparr>stillFrameBeforeDartRef := Some warped\<rparr>)
      else if \<not> currentIsStill \<and> isStill s
      then
        (case stillFrameBeforeDartRef t of
           None \<Rightarrow> t\<lparr>stillFrameBeforeDartRef := prevWarpedFrameRef t\<rparr>
         | Some before \<Rightarrow> t)
      else t)"

definition warpedFeed :: "'m OpenCV \<Rightarrow> 'm FrameInput \<Rightarrow> 'm DetectorState \<Rightarrow> real list
    \<Rightarrow> 'm DetectorState \<Rightarrow> 'm DetectorState" where
  \<comment> \<open>The branch of a calibrated render: the warp, the stillness detection and the
      trigger. An exception of the warp is caught: only the error is set.\<close>
  "warpedFeed cv inp s H t =
     (case warpPerspective cv (img inp) H of
        None \<Rightarrow> t\<lparr>error := Some ''Error during image processing.''\<rparr>
      | Some warped \<Rightarrow>
          let t1 = t\<lparr>canvas := Some (WarpedFeed warped)\<rparr>;
              (currentIsStill, t2) = stillnessCheck cv inp s warped t1;
              t3 = detectionTrigger cv inp s warped currentIsStill t2
          in t3\<lparr>prevWarpedFrameRef := Some warped\<rparr>)"

definition rawFeed :: "'m FrameInput \<Rightarrow> 'm DetectorState \<Rightarrow> 'm DetectorState \<Rightarrow> 'm DetectorState" where
  \<comment> \<open>The branch of a render that is neither calibrating nor calibrated.\<close>
  "rawFeed inp s t =
     (let t1 = t\<lparr>canvas := Some (RawFeed (img inp))\<rparr>;
          t2 = (if isStill s then t1\<lparr>isStill := False\<rparr> else t1);
          t3 = t2\<lparr>prevWarpedFrameRef := None, stillFrameBeforeDartRef := None,
                  stillFrameAfterDartRef := None, justBecameStillRef := False\<rparr>
      in case detectedTip s of None \<Rightarrow> t3 | Some tip \<Rightarrow> t3\<lparr>detectedTip := None\<rparr>)"

definition processFrame :: "'m OpenCV \<Rightarrow> 'm FrameInput \<Rightarrow> 'm DetectorState \<Rightarrow> 'm DetectorState" where
  "processFrame cv inp s =
     (let t0 = s\<lparr>processingScheduled := False\<rparr> in
      if \<not> cvLoaded s then t0
      else if \<not> canvasPresent inp then t0
      else if \<not> isConnected s then t0
      else if \<not> ctxPresent inp then t0
      else if naturalWidth inp = 0 then t0
      else
        let t1 = checkDimensions inp s t0 in
        if isCalibrating s then t1\<lparr>canvas := Some (RawFeed (img inp))\<rparr>
        else
          (case calibrationData s of
             None \<Rightarrow> rawFeed inp s t1
           | Some cd \<Rightarrow>
               (case homographyMatrix cd of
                  None \<Rightarrow> rawFeed inp s t1
                | Some H \<Rightarrow> warpedFeed cv inp s H t1)))"

section \<open>Loading the stored calibration\<close>

text \<open>
  The value that \<^verbatim>\<open>JSON.parse\<close> gives is a JSON value; reading a property of it gives
  a JSON value or \<^verbatim>\<open>undefined\<close>, and throws a TypeError on \<^verbatim>\<open>null\<close>.
  \<^verbatim>\<open>JSON.parse\<close> is a parameter (\<open>Inl\<close>: it throws).
\<close>

datatype json = JNull | JBool bool | JNum real | JStr string | JArr "json list"
  | JObj "(string \<times> json) list"

datatype jsval = Undefined | Val json

datatype js_error = TypeError | SyntaxError

fun truthy :: "jsval \<Rightarrow> bool" where
  "truthy Undefined = False"
| "truthy (Val JNull) = False"
| "truthy (Val (JBool b)) = b"
| "truthy (Val (JNum r)) = (r \<noteq> 0)"
| "truthy (Val (JStr str)) = (str \<noteq> [])"
| "truthy (Val (JArr vs)) = True"
| "truthy (Val (JObj kvs)) = True"

fun getProp :: "json \<Rightarrow> string \<Rightarrow> js_error + jsval" where
  \<comment> \<open>\<^verbatim>\<open>v.k\<close> for a key that is no built-in property; in an object with a key written
      twice the last one counts.\<close>
  "getProp JNull k = Inl TypeError"
| "getProp (JObj kvs) k = Inr (case map_of (rev kvs) k of None \<Rightarrow> Undefined | Some v \<Rightarrow> Val v)"
| "getProp v k = Inr Undefined"

definition basicValidation :: "json \<Rightarrow> js_error + bool" where
  \<comment> \<open>\<^verbatim>\<open>parsedData.imagePoints && parsedData.worldPoints && parsedData.homographyMatrix\<close>
      as a condition.\<close>
  "basicValidation parsedData =
     (case getProp parsedData ''imagePoints'' of
        Inl e \<Rightarrow> Inl e
      | Inr a \<Rightarrow>
          if truthy a then
            (case getProp parsedData ''worldPoints'' of
               Inl e \<Rightarrow> Inl e
             | Inr b \<Rightarrow>
                 if truthy b then
                   (case getProp parsedData ''homographyMatrix'' of
                      Inl e \<Rightarrow> Inl e
                    | Inr c \<Rightarrow> Inr (truthy c))
                 else Inr False)
          else Inr False)"

record LoadResult =
  restored :: "json option"
    \<comment> \<open>the argument of \<^verbatim>\<open>setCalibrationData\<close>, if it is called\<close>
  storageAfter :: "string option"

definition loadPersisted :: "(string \<Rightarrow> js_error + json) \<Rightarrow> string option \<Rightarrow> LoadResult" where
  \<comment> \<open>The start-up effect, once OpenCV is loaded, on the stored item.\<close>
  "loadPersisted JSON_parse savedCalibration =
     (case savedCalibration of
        None \<Rightarrow> \<lparr>restored = None, storageAfter = None\<rparr>
      | Some str \<Rightarrow>
          if str = [] then \<lparr>restored = None, storageAfter = Some str\<rparr>
          else
            (case JSON_parse str of
               Inl e \<Rightarrow> \<lparr>restored = None, storageAfter = None\<rparr>
             | Inr parsedData \<Rightarrow>
                 (case basicValidation parsedData of
                    Inl e \<Rightarrow> \<lparr>restored = None, storageAfter = None\<rparr>
                  | Inr ok \<Rightarrow>
                      if ok then \<lparr>restored = Some parsedData, storageAfter = Some str\<rparr>
                      else \<lparr>restored = None, storageAfter = None\<rparr>)))"

section \<open>Vocabulary of the statements\<close>

definition centroid :: "Moments \<Rightarrow> Point" where
  \<comment> \<open>The centroid \<^verbatim>\<open>(cX, cY)\<close> that findDartTip computes from the moments.\<close>
  "centroid M = \<lparr>px = m10 M / m00 M, py = m01 M / m00 M\<rparr>"

definition euclideanDistance :: "Point \<Rightarrow> Point \<Rightarrow> real" where
  "euclideanDistance a b = sqrt ((px a - px b)\<^sup>2 + (py a - py b)\<^sup>2)"

definition fieldTruthy :: "json \<Rightarrow> string \<Rightarrow> bool" where
  \<comment> \<open>The value is an object whose property \<open>k\<close> is present and truthy.\<close>
  "fieldTruthy v k =
     (case v of
        JObj kvs \<Rightarrow> (case map_of (rev kvs) k of None \<Rightarrow> False | Some j \<Rightarrow> truthy (Val j))
      | _ \<Rightarrow> False)"

definition fieldsPresent :: "json \<Rightarrow> bool" where
  "fieldsPresent v =
     (fieldTruthy v ''imagePoints'' \<and> fieldTruthy v ''worldPoints''
      \<and> fieldTruthy v ''homographyMatrix'')"

definition arrayField :: "json \<Rightarrow> string \<Rightarrow> json list option" where
  "arrayField v k =
     (case v of
        JObj kvs \<Rightarrow> (case map_of (rev kvs) k of Some (JArr vs) \<Rightarrow> Some vs | _ \<Rightarrow> None)
      | _ \<Rightarrow> None)"

definition spec_structurallyValid :: "json \<Rightarrow> bool" where
  \<comment> \<open>The shape the specification asks of a stored record: 4 image points, 4 world
      points, a matrix.\<close>
  "spec_structurallyValid v =
     (case (arrayField v ''imagePoints'', arrayField v ''worldPoints'',
            arrayField v ''homographyMatrix'') of
        (Some ips, Some wps, Some h) \<Rightarrow> length ips = 4 \<and> length wps = 4
      | _ \<Rightarrow> False)"

text \<open>
  A sequence of frames, each processed in the render that follows the one before; a frame
  that a calibrated render can warp: the canvas and its context are there, the
  dimensions are those of the calibration and the warp does not throw.
\<close>

fun processFrames :: "'m OpenCV \<Rightarrow> 'm FrameInput list \<Rightarrow> 'm DetectorState \<Rightarrow> 'm DetectorState" where
  "processFrames cv [] s = s"
| "processFrames cv (inp # inps) s = processFrames cv inps (processFrame cv inp s)"

definition rectifiable :: "'m OpenCV \<Rightarrow> CalibrationData \<Rightarrow> real list \<Rightarrow> 'm FrameInput \<Rightarrow> bool" where
  "rectifiable cv cd H inp =
     (canvasPresent inp \<and> ctxPresent inp \<and> naturalWidth inp \<noteq> 0
      \<and> naturalWidth inp = width (sourceDimensions cd)
      \<and> naturalHeight inp = height (sourceDimensions cd)
      \<and> warpPerspective cv (img inp) H \<noteq> None)"

section \<open>Example inputs\<close>

definition triangleMoments :: "Contour \<Rightarrow> Moments" where
  \<comment> \<open>The moments of the triangle \<open>(0,0), (4,0), (4,3)\<close>: area 6, centroid \<open>(8/3, 1)\<close>.\<close>
  "triangleMoments contour = \<lparr>m00 = 6, m10 = 16, m01 = 6\<rparr>"

definition fixtureCalibration :: CalibrationData where
  "fixtureCalibration =
     \<lparr>imagePoints = [\<lparr>px = 320, py = 20\<rparr>, \<lparr>px = 600, py = 240\<rparr>, \<lparr>px = 320, py = 460\<rparr>,
                      \<lparr>px = 40, py = 240\<rparr>],
      worldPoints = WORLD_POINTS_TARGET,
      homographyMatrix = Some [1, 0, 0, 0, 1, 0, 0, 0, 1],
      sourceDimensions = \<lparr>width = 640, height = 480\<rparr>\<rparr>"

definition fixtureCv :: "nat OpenCV" where
  \<comment> \<open>Images are numbers; the warp of image \<open>m\<close> is \<open>m + 1000\<close>; two different images
      differ by 20 in the mean; no contour is found; no homography is found.\<close>
  "fixtureCv =
     \<lparr>warpPerspective = (\<lambda>m H. Some (m + 1000)),
      meanDiff = (\<lambda>a b. if a = b then 0 else 20),
      diffContours = (\<lambda>c a b. Some []),
      contourArea = (\<lambda>c. 0),
      moments = (\<lambda>c. \<lparr>m00 = 0, m10 = 0, m01 = 0\<rparr>),
      findHomography = (\<lambda>a b. NullMat)\<rparr>"

definition detectingCv :: "nat OpenCV" where
  \<comment> \<open>As \<open>fixtureCv\<close>, but the difference of two frames has one contour, the triangle,
      of area 600.\<close>
  "detectingCv =
     \<lparr>warpPerspective = (\<lambda>m H. Some (m + 1000)),
      meanDiff = (\<lambda>a b. if a = b then 0 else 20),
      diffContours = (\<lambda>c a b. Some [[(0, 0), (4, 0), (4, 3)]]),
      contourArea = (\<lambda>c. 600),
      moments = triangleMoments,
      findHomography = (\<lambda>a b. NullMat)\<rparr>"

definition fixtureState :: "nat DetectorState" where
  \<comment> \<open>A connected detector calibrated for 640 x 480, in state Moving, whose previous
      warped frame is 1007 and whose last detection was at 4000 ms.\<close>
  "fixtureState =
     (initialState (Some ''stored''))\<lparr>cvLoaded := True, isConnected := True,
        calibrationData := Some fixtureCalibration, prevWarpedFrameRef := Some 1007,
        stillFrameBeforeDartRef := Some 1005, lastDetectionTimeRef := 4000\<rparr>"

definition fixtureFrame :: "nat \<Rightarrow> nat \<Rightarrow> nat \<Rightarrow> real \<Rightarrow> nat FrameInput" where
  "fixtureFrame m w h t =
     \<lparr>img = m, naturalWidth = w, naturalHeight = h, canvasPresent = True, ctxPresent = True,
      now = t, detectNow = t + 1\<rparr>"

definition oscillatingFrames :: "nat FrameInput list" where
  \<comment> \<open>Five frames between 6200 and 7001 ms whose contents change and settle in turn.\<close>
  "oscillatingFrames =
     [fixtureFrame 8 640 480 6200, fixtureFrame 8 640 480 6400, fixtureFrame 9 640 480 6600,
      fixtureFrame 9 640 480 6800, fixtureFrame 7 640 480 7001]"

definition collinearClicks :: "Point list" where
  "collinearClicks =
     [\<lparr>px = 10, py = 10\<rparr>, \<lparr>px = 20, py = 20\<rparr>, \<lparr>px = 30, py = 30\<rparr>, \<lparr>px = 40, py = 40\<rparr>]"

definition failedSolve :: "nat DetectorState" where
  \<comment> \<open>The state after the solve over four collinear clicks has given no matrix.\<close>
  "failedSolve =
     calculateAndStoreHomography fixtureCv (\<lambda>cd. ''record'')
       (fixtureState\<lparr>isCalibrating := True, clickedPoints := collinearClicks\<rparr>)"

definition fixtureStored :: json where
  \<comment> \<open>A stored record with no image point and no world point.\<close>
  "fixtureStored =
     JObj [(''imagePoints'', JArr []), (''worldPoints'', JArr []),
           (''homographyMatrix'',
              JArr [JNum 1, JNum 0, JNum 0, JNum 0, JNum 1, JNum 0, JNum 0, JNum 0, JNum 1]),
           (''sourceDimensions'', JObj [(''width'', JNum 640), (''height'', JNum 480)])]"

section \<open>Facts about the number model\<close>

lemma atan2_bounds: "- pi \<le> atan2 b a \<and> atan2 b a \<le> pi"
proof -
  have lb: "- (pi / 2) < arctan (b / a)" by (rule arctan_lbound)
  have ub: "arctan (b / a) < pi / 2" by (rule arctan_ubound)
  have pos: "0 < pi" by (rule pi_gt_zero)
  show ?thesis
  proof (cases "0 < a")
    case True
    have "- pi \<le> arctan (b / a)" "arctan (b / a) \<le> pi"
      using lb ub pos by linarith+
    with True show ?thesis by (simp add: atan2_def)
  next
    case False
    note na = this
    show ?thesis
    proof (cases "a < 0")
      case True
      note neg = this
      show ?thesis
      proof (cases "0 \<le> b")
        case True
        with neg have "b / a \<le> 0" by (simp add: divide_nonneg_neg)
        then have "arctan (b / a) \<le> 0" by simp
        then have "- pi \<le> arctan (b / a) + pi" "arctan (b / a) + pi \<le> pi"
          using lb pos by linarith+
        with neg True show ?thesis by (simp add: atan2_def)
      next
        case False
        with neg have "0 < b / a" by (simp add: divide_neg_neg)
        then have "0 < arctan (b / a)" by simp
        then have "- pi \<le> arctan (b / a) - pi" "arctan (b / a) - pi \<le> pi"
          using ub pos by linarith+
        with neg False show ?thesis by (simp add: atan2_def)
      qed
    next
      case False
      with na show ?thesis by (auto simp: atan2_def) (use pos in linarith)+
    qed
  qed
qed

lemma js_rem_small: "\<bar>a\<bar> < n \<Longrightarrow> js_rem a n = a"
proof -
  assume h: "\<bar>a\<bar> < n"
  then have n: "0 < n" by linarith
  have "\<bar>a / n\<bar> < 1" using h n by simp
  then have "-1 < a / n" "a / n < 1" by linarith+
  then have "(if 0 \<le> a / n then \<lfloor>a / n\<rfloor> else \<lceil>a / n\<rceil>) = 0"
    by (auto simp: floor_eq_iff ceiling_eq_iff)
  then show ?thesis by (simp add: js_rem_def)
qed

lemma js_rem_range: "0 \<le> a \<Longrightarrow> 0 < n \<Longrightarrow> 0 \<le> js_rem a n \<and> js_rem a n < n"
proof -
  assume a: "0 \<le> a" and n: "0 < n"
  define k :: real where "k = of_int \<lfloor>a / n\<rfloor>"
  have q: "0 \<le> a / n" using a n by simp
  have aq: "n * (a / n) = a" using n by simp
  have f1: "k \<le> a / n" unfolding k_def by linarith
  have f2: "a / n < k + 1" unfolding k_def by linarith
  have "n * k \<le> n * (a / n)" using f1 n by (simp only: mult_le_cancel_left_pos)
  then have l: "n * k \<le> a" by (simp only: aq)
  have "n * (a / n) < n * (k + 1)" using f2 n by (simp only: mult_less_cancel_left_pos)
  then have "a < n * k + n" by (simp only: aq distrib_left mult_1_right)
  then have u: "a - n * k < n" by linarith
  have "js_rem a n = a - n * k" using q by (simp add: js_rem_def k_def)
  with l u show ?thesis by simp
qed

lemma js_rem_int_small: "0 \<le> k \<Longrightarrow> k < n \<Longrightarrow> js_rem_int k n = k"
  by (cases "k = 0") (simp_all add: js_rem_int_def)

lemma js_index_in_range:
  "0 \<le> i \<Longrightarrow> i < int (length xs) \<Longrightarrow> js_index xs i = Some (xs ! nat i)"
  by (simp add: js_index_def)

section \<open>Properties of the manual board's score\<close>

lemma boardAngle_range: "0 \<le> boardAngle x y \<and> boardAngle x y < 360"
proof -
  define dx where "dx = x - px (CENTER DARTBOARD_CONFIG)"
  define dy where "dy = y - py (CENTER DARTBOARD_CONFIG)"
  define v where "v = atan2 dy dx * 180 / pi + 99"
  have pos: "0 < pi" by (rule pi_gt_zero)
  have b: "- pi \<le> atan2 dy dx" "atan2 dy dx \<le> pi" using atan2_bounds by auto
  have "atan2 dy dx * 180 / pi \<le> 180" using b(2) pos by (simp add: field_simps)
  moreover have "- 180 \<le> atan2 dy dx * 180 / pi" using b(1) pos by (simp add: field_simps)
  ultimately have vb: "- 81 \<le> v" "v \<le> 279" by (simp_all add: v_def)
  then have "\<bar>v\<bar> < 360" by linarith
  then have r: "js_rem v 360 = v" by (rule js_rem_small)
  have "boardAngle x y = (if v < 0 then v + 360 else v)"
    using r by (simp add: boardAngle_def Let_def dx_def dy_def v_def)
  with vb show ?thesis by auto
qed

lemma boardIndex_range:
  "0 \<le> js_rem_int \<lfloor>boardAngle x y / 18\<rfloor> 20 \<and> js_rem_int \<lfloor>boardAngle x y / 18\<rfloor> 20 < 20"
proof -
  have r: "0 \<le> boardAngle x y" "boardAngle x y < 360" using boardAngle_range by auto
  then have "0 \<le> \<lfloor>boardAngle x y / 18\<rfloor>" by simp
  moreover have "\<lfloor>boardAngle x y / 18\<rfloor> < 20" using r by (simp add: floor_less_iff)
  ultimately show ?thesis by (simp add: js_rem_int_small)
qed

text \<open>
  Claim C9. For every pair of coordinates the score that calculateScore returns has a
  segment that is a number \<open>s\<close> (the read of \<^verbatim>\<open>DARTBOARD_NUMBERS\<close> is never out of range)
  and its points are \<open>s\<close> times its multiplier: 50 = 25 x 2 for the inner bull, 25 = 25 x 1
  for the outer bull, 0 = 0 x 1 for a miss, the face value times the ring's multiplier
  otherwise.
\<close>

theorem calculateScore_points:
  "\<exists>s. segment (calculateScore x y) = Some s
      \<and> points (calculateScore x y) = Some (s * multiplier (calculateScore x y))"
proof -
  have "js_index DARTBOARD_NUMBERS (js_rem_int \<lfloor>boardAngle x y / 18\<rfloor> 20)
        = Some (DARTBOARD_NUMBERS ! nat (js_rem_int \<lfloor>boardAngle x y / 18\<rfloor> 20))"
    using boardIndex_range [of x y]
    by (intro js_index_in_range) (simp_all add: DARTBOARD_NUMBERS_def)
  then show ?thesis
    by (simp add: calculateScore_def Let_def js_times_def)
qed

section \<open>Properties of the detector's score\<close>

lemma distance_vertical: "distanceFromCenter \<lparr>px = 250, py = 250 + d\<rparr> = \<bar>d\<bar>"
  by (simp add: distanceFromCenter_def boardCenterX_def boardCenterY_def
      CALIBRATION_TARGET_SIZE_def)

lemma angleDeg_range: "0 \<le> angleDeg p \<and> angleDeg p < 360"
proof -
  define dx where "dx = px p - boardCenterX"
  define dy where "dy = py p - boardCenterY"
  define a0 where "a0 = atan2 (- dy) dx"
  define a1 where "a1 = (if a0 < 0 then a0 + 2 * pi else a0)"
  define a2 where "a2 = js_rem (a1 + pi / 2) (2 * pi)"
  have pos: "0 < pi" by (rule pi_gt_zero)
  have b: "- pi \<le> a0" using atan2_bounds [of "- dy" dx] by (simp add: a0_def)
  have "0 \<le> a1" using b pos by (auto simp: a1_def)
  then have "0 \<le> a1 + pi / 2" using pos by simp
  moreover have "0 < 2 * pi" using pos by simp
  ultimately have r: "0 \<le> a2 \<and> a2 < 2 * pi" unfolding a2_def by (rule js_rem_range)
  have e: "angleDeg p = a2 * (180 / pi)"
    by (simp add: angleDeg_def Let_def a2_def a1_def a0_def dx_def dy_def)
  have "0 \<le> a2 * (180 / pi)" using r pos by simp
  moreover have "a2 * (180 / pi) < 360" using r pos by (simp add: field_simps)
  ultimately show ?thesis by (simp add: e)
qed

lemma segmentIndex_range: "0 \<le> segmentIndex p \<and> segmentIndex p < 20"
proof -
  have "0 \<le> angleDeg p + 9" using angleDeg_range [of p] by simp
  then have r: "0 \<le> js_rem (angleDeg p + 9) 360 \<and> js_rem (angleDeg p + 9) 360 < 360"
    by (rule js_rem_range) simp
  then have "0 \<le> \<lfloor>js_rem (angleDeg p + 9) 360 / 18\<rfloor>" by simp
  moreover have "\<lfloor>js_rem (angleDeg p + 9) 360 / 18\<rfloor> < 20" using r by (simp add: floor_less_iff)
  ultimately show ?thesis by (simp add: segmentIndex_def)
qed

lemma segmentScores_values: "\<forall>v \<in> set segmentScores. 1 \<le> v \<and> v \<le> 20"
  by (simp add: segmentScores_def)

lemma baseScore_value:
  "\<exists>v. js_index segmentScores (segmentIndex p) = Some v \<and> 1 \<le> v \<and> v \<le> 20"
proof -
  have r: "0 \<le> segmentIndex p" "segmentIndex p < 20" using segmentIndex_range [of p] by auto
  have len: "length segmentScores = 20" by (simp add: segmentScores_def)
  have "nat (segmentIndex p) < length segmentScores" using r len by simp
  then have "segmentScores ! nat (segmentIndex p) \<in> set segmentScores" by (rule nth_mem)
  with segmentScores_values have "1 \<le> segmentScores ! nat (segmentIndex p)
      \<and> segmentScores ! nat (segmentIndex p) \<le> 20" by blast
  moreover have "js_index segmentScores (segmentIndex p) = Some (segmentScores ! nat (segmentIndex p))"
    using r len by (simp add: js_index_def)
  ultimately show ?thesis by simp
qed

lemma distanceFromCenter_euclid:
  "distanceFromCenter p = sqrt ((px p - 250)\<^sup>2 + (py p - 250)\<^sup>2)"
  by (simp add: distanceFromCenter_def boardCenterX_def boardCenterY_def
      CALIBRATION_TARGET_SIZE_def power2_eq_square Let_def)

lemma sqrt_of_square: "0 \<le> r \<Longrightarrow> s = r\<^sup>2 \<Longrightarrow> sqrt s = r"
  by simp

text \<open>
  Claim C5. The radial bands are checked bull first, on the Euclidean distance of the
  point from the centre \<open>(250, 250)\<close> of the board: the score is 50, the inner bull,
  exactly when the distance is at most the radius 8 of the inner bull (the boundary
  included); it is 25, the outer bull, exactly when the distance is above 8 and at most
  the radius 20 of the outer bull; it is 0, a miss, exactly when the distance is strictly
  above the outer radius 215. The result of getScoreFromCoords carries the score and a
  confidence and no name of the ring; the scores 50, 25 and 0 are those of no other band,
  so that each of them tells its band.
\<close>

theorem getScoreFromCoords_bands:
  "(score (getScoreFromCoords (Some p)) = Some 50
      \<longleftrightarrow> sqrt ((px p - 250)\<^sup>2 + (py p - 250)\<^sup>2) \<le> 8)
 \<and> (score (getScoreFromCoords (Some p)) = Some 25
      \<longleftrightarrow> 8 < sqrt ((px p - 250)\<^sup>2 + (py p - 250)\<^sup>2)
          \<and> sqrt ((px p - 250)\<^sup>2 + (py p - 250)\<^sup>2) \<le> 20)
 \<and> (score (getScoreFromCoords (Some p)) = Some 0
      \<longleftrightarrow> 215 < sqrt ((px p - 250)\<^sup>2 + (py p - 250)\<^sup>2))
 \<and> confidence (getScoreFromCoords (Some p)) = 1"
proof -
  define d where "d = sqrt ((px p - 250)\<^sup>2 + (py p - 250)\<^sup>2)"
  have dd: "distanceFromCenter p = d" by (simp add: d_def distanceFromCenter_euclid)
  obtain v where v: "js_index segmentScores (segmentIndex p) = Some v" "1 \<le> v" "v \<le> 20"
    using baseScore_value [of p] by blast
  have n2: "v * 2 \<noteq> 50" "v * 2 \<noteq> 25" "v * 2 \<noteq> 0" using v(2,3) by presburger+
  have n3: "v * 3 \<noteq> 50" "v * 3 \<noteq> 25" "v * 3 \<noteq> 0" using v(2,3) by presburger+
  have n1: "v \<noteq> 50" "v \<noteq> 25" "v \<noteq> 0" using v(2,3) by presburger+
  show ?thesis
    unfolding d_def [symmetric]
    using n1 n2 n3
    by (simp add: getScoreFromCoords_def dd radii_def v(1) js_times_def Let_def)
qed

text \<open>
  The table of boundary points: the centre and a point at distance 8 score 50; points at
  distances 9 and 20 score 25; a point at distance 216, one beyond the outer radius, and a
  point off the axes beyond it score 0. All have integer coordinates, as the tips of
  contours have.
\<close>

theorem getScoreFromCoords_bands_witness:
  "score (getScoreFromCoords (Some \<lparr>px = 250, py = 250\<rparr>)) = Some 50
 \<and> score (getScoreFromCoords (Some \<lparr>px = 258, py = 250\<rparr>)) = Some 50
 \<and> score (getScoreFromCoords (Some \<lparr>px = 262, py = 266\<rparr>)) = Some 25
 \<and> score (getScoreFromCoords (Some \<lparr>px = 466, py = 250\<rparr>)) = Some 0
 \<and> score (getScoreFromCoords (Some \<lparr>px = 380, py = 423\<rparr>)) = Some 0
 \<and> score (getScoreFromCoords (Some \<lparr>px = 259, py = 250\<rparr>)) = Some 25"
proof -
  have a: "sqrt ((250 - 250)\<^sup>2 + (250 - 250)\<^sup>2) = (0::real)" by simp
  have b: "sqrt ((258 - 250)\<^sup>2 + (250 - 250)\<^sup>2) = (8::real)" by simp
  have c: "sqrt ((262 - 250)\<^sup>2 + (266 - 250)\<^sup>2) = (20::real)"
    by (rule sqrt_of_square) simp_all
  have d: "sqrt ((466 - 250)\<^sup>2 + (250 - 250)\<^sup>2) = (216::real)" by simp
  have "(215::real)\<^sup>2 < (380 - 250)\<^sup>2 + (423 - 250)\<^sup>2" by simp
  then have e: "215 < sqrt ((380 - 250)\<^sup>2 + (423 - 250)\<^sup>2 :: real)"
    by (rule real_less_rsqrt)
  have f: "sqrt ((259 - 250)\<^sup>2 + (250 - 250)\<^sup>2) = (9::real)" by simp
  show ?thesis
    using getScoreFromCoords_bands [of "\<lparr>px = 250, py = 250\<rparr>"]
      getScoreFromCoords_bands [of "\<lparr>px = 258, py = 250\<rparr>"]
      getScoreFromCoords_bands [of "\<lparr>px = 262, py = 266\<rparr>"]
      getScoreFromCoords_bands [of "\<lparr>px = 466, py = 250\<rparr>"]
      getScoreFromCoords_bands [of "\<lparr>px = 380, py = 423\<rparr>"]
      getScoreFromCoords_bands [of "\<lparr>px = 259, py = 250\<rparr>"]
      a b c d e f
    by simp
qed

lemma angleDeg_above: "d > 0 \<Longrightarrow> angleDeg \<lparr>px = 250, py = 250 - d\<rparr> = 180"
proof -
  assume d: "d > 0"
  have "\<bar>pi\<bar> < 2 * pi" using pi_gt_zero by simp
  then have "js_rem pi (2 * pi) = pi" by (rule js_rem_small)
  then show ?thesis using d
    by (simp add: angleDeg_def boardCenterX_def boardCenterY_def CALIBRATION_TARGET_SIZE_def
        atan2_def Let_def)
qed

lemma segmentIndex_above: "d > 0 \<Longrightarrow> segmentIndex \<lparr>px = 250, py = 250 - d\<rparr> = 10"
proof -
  assume d: "d > 0"
  have "js_rem 189 360 = 189" by (rule js_rem_small) simp
  moreover have "\<lfloor>189 / 18 :: real\<rfloor> = 10" by (simp add: floor_eq_iff)
  ultimately show ?thesis using angleDeg_above [OF d] by (simp add: segmentIndex_def)
qed

lemma segmentScores_10: "js_index segmentScores 10 = Some 3"
  by (simp add: js_index_def segmentScores_def)

text \<open>
  Claim C1 asks for 20 at a point straight up from the centre at a single-ring distance
  and for 60 at a triple-ring distance. The code does not do this: for a point straight
  up, \<^verbatim>\<open>Math.atan2(-dy, dx)\<close> is \<open>pi / 2\<close>, the added quarter turn makes the angle 180
  degrees, and the segment index is 10, whose face value is 3. At \<open>(250, 150)\<close>, 100 from
  the centre, the score is 3; at \<open>(250, 120)\<close>, 130 from the centre and in the triple
  ring, it is 9.
\<close>

theorem getScoreFromCoords_top_is_3:
  "getScoreFromCoords (Some \<lparr>px = 250, py = 150\<rparr>) = \<lparr>score = Some 3, confidence = 1\<rparr>
 \<and> getScoreFromCoords (Some \<lparr>px = 250, py = 120\<rparr>) = \<lparr>score = Some 9, confidence = 1\<rparr>"
proof -
  have d1: "distanceFromCenter \<lparr>px = 250, py = 150\<rparr> = 100"
    using distance_vertical [of "-100"] by simp
  have d2: "distanceFromCenter \<lparr>px = 250, py = 120\<rparr> = 130"
    using distance_vertical [of "-130"] by simp
  have s1: "segmentIndex \<lparr>px = 250, py = 150\<rparr> = 10"
    using segmentIndex_above [of 100] by simp
  have s2: "segmentIndex \<lparr>px = 250, py = 120\<rparr> = 10"
    using segmentIndex_above [of 130] by simp
  show ?thesis
    by (simp add: getScoreFromCoords_def d1 d2 s1 s2 segmentScores_10 radii_def js_times_def)
qed

section \<open>Properties of the tip extraction\<close>

lemma distanceSq_nonneg: "0 \<le> distanceSq cX cY p"
  by (simp add: distanceSq_def Let_def)

lemma euclideanDistance_distanceSq:
  "euclideanDistance p (centroid M) = sqrt (distanceSq (m10 M / m00 M) (m01 M / m00 M) p)"
  by (simp add: euclideanDistance_def centroid_def distanceSq_def Let_def power2_eq_square)

lemma furthestLoop_inv:
  "furthestLoop cX cY cs (fp, m) = (fp', m') \<Longrightarrow>
     m \<le> m' \<and> (\<forall>c \<in> set cs. distanceSq cX cY (contourPoint c) \<le> m') \<and>
     ((fp', m') = (fp, m) \<or>
      (\<exists>c \<in> set cs. fp' = Some (contourPoint c) \<and> m' = distanceSq cX cY (contourPoint c)))"
proof (induction cs arbitrary: fp m)
  case Nil
  then show ?case by simp
next
  case (Cons c cs)
  show ?case
  proof (cases "distanceSq cX cY (contourPoint c) > m")
    case True
    with Cons.prems
    have "furthestLoop cX cY cs (Some (contourPoint c), distanceSq cX cY (contourPoint c))
          = (fp', m')"
      by (simp add: Let_def)
    from Cons.IH [OF this] True show ?thesis by auto
  next
    case False
    with Cons.prems have "furthestLoop cX cY cs (fp, m) = (fp', m')"
      by (simp add: Let_def)
    from Cons.IH [OF this] False show ?thesis by auto
  qed
qed

lemma furthestLoop_start:
  assumes ne: "contour \<noteq> []"
    and run: "furthestLoop cX cY contour (None, -1) = (fp', m')"
  shows "\<exists>c \<in> set contour. fp' = Some (contourPoint c) \<and> m' = distanceSq cX cY (contourPoint c)
           \<and> (\<forall>d \<in> set contour. distanceSq cX cY (contourPoint d) \<le> m')"
proof -
  from furthestLoop_inv [OF run]
  have all: "\<forall>d \<in> set contour. distanceSq cX cY (contourPoint d) \<le> m'"
    and alt: "(fp', m') = (None, -1) \<or>
      (\<exists>c \<in> set contour. fp' = Some (contourPoint c) \<and> m' = distanceSq cX cY (contourPoint c))"
    by auto
  from ne obtain c where c: "c \<in> set contour" by (cases contour) auto
  with all have "distanceSq cX cY (contourPoint c) \<le> m'" by blast
  with distanceSq_nonneg [of cX cY "contourPoint c"] have "0 \<le> m'" by linarith
  then have "(fp', m') \<noteq> (None, -1)" by auto
  with alt all show ?thesis by blast
qed

text \<open>
  Claim C10. The findDartTip of the centroid distance returns null exactly when the
  contour has no point or its zeroth moment is 0; otherwise it returns a point of the
  contour, one at the greatest Euclidean distance from the centroid of the contour.
\<close>

theorem findDartTip_furthest:
  "(findDartTip cv_moments contour = None \<longleftrightarrow> contour = [] \<or> m00 (cv_moments contour) = 0) \<and>
   (\<forall>tip. findDartTip cv_moments contour = Some tip \<longrightarrow>
      tip \<in> contourPoint ` set contour \<and>
      (\<forall>c \<in> set contour.
         euclideanDistance (contourPoint c) (centroid (cv_moments contour))
           \<le> euclideanDistance tip (centroid (cv_moments contour))))"
proof (cases "contour = [] \<or> m00 (cv_moments contour) = 0")
  case True
  then show ?thesis by (auto simp: findDartTip_def Let_def)
next
  case False
  define M where "M = cv_moments contour"
  define cX where "cX = m10 M / m00 M"
  define cY where "cY = m01 M / m00 M"
  obtain fp' m' where run: "furthestLoop cX cY contour (None, -1) = (fp', m')"
    by (cases "furthestLoop cX cY contour (None, -1)") auto
  from False have ne: "contour \<noteq> []" by simp
  from furthestLoop_start [OF ne run] obtain c where
    c: "c \<in> set contour" "fp' = Some (contourPoint c)" "m' = distanceSq cX cY (contourPoint c)"
    and all: "\<forall>d \<in> set contour. distanceSq cX cY (contourPoint d) \<le> m'"
    by blast
  have res: "findDartTip cv_moments contour = Some (contourPoint c)"
    using False run c by (simp add: findDartTip_def Let_def M_def cX_def cY_def)
  have "euclideanDistance (contourPoint d) (centroid M)
          \<le> euclideanDistance (contourPoint c) (centroid M)"
    if "d \<in> set contour" for d
    using all that c(3) by (simp add: euclideanDistance_distanceSq cX_def cY_def)
  with res c(1) False show ?thesis by (auto simp: M_def)
qed

text \<open>
  On the triangle \<open>(0,0), (4,0), (4,3)\<close>, whose centroid is \<open>(8/3, 1)\<close>, the tip is
  \<open>(0,0)\<close>; on the empty contour there is none.
\<close>

theorem findDartTip_furthest_witness:
  "findDartTip triangleMoments [(0, 0), (4, 0), (4, 3)] = Some \<lparr>px = 0, py = 0\<rparr> \<and>
   \<lparr>px = 0, py = 0\<rparr> \<in> contourPoint ` set [(0, 0), (4, 0), (4, 3)] \<and>
   euclideanDistance (contourPoint (4, 3)) (centroid (triangleMoments [(0, 0), (4, 0), (4, 3)]))
      \<le> euclideanDistance \<lparr>px = 0, py = 0\<rparr> (centroid (triangleMoments [(0, 0), (4, 0), (4, 3)])) \<and>
   findDartTip triangleMoments [] = None"
proof -
  have r: "findDartTip triangleMoments [(0, 0), (4, 0), (4, 3)] = Some \<lparr>px = 0, py = 0\<rparr>"
    by (simp add: findDartTip_def triangleMoments_def Let_def contourPoint_def distanceSq_def)
  from findDartTip_furthest [of triangleMoments "[(0, 0), (4, 0), (4, 3)]"] r
  have "\<lparr>px = 0, py = 0\<rparr> \<in> contourPoint ` set [(0, 0), (4, 0), (4, 3)] \<and>
     (\<forall>c \<in> set [(0, 0), (4, 0), (4, 3)].
         euclideanDistance (contourPoint c) (centroid (triangleMoments [(0, 0), (4, 0), (4, 3)]))
           \<le> euclideanDistance \<lparr>px = 0, py = 0\<rparr>
                (centroid (triangleMoments [(0, 0), (4, 0), (4, 3)])))"
    by blast
  moreover have "findDartTip triangleMoments [] = None"
    using findDartTip_furthest [of triangleMoments "[]"] by simp
  ultimately show ?thesis using r by simp
qed

section \<open>Properties of the detection and of the stillness state machine\<close>

lemma detectDart_isStill: "isStill (detectDart cv tnow a b t) = isStill t"
  by (simp add: detectDart_def Let_def split: option.splits)

lemma detectionTrigger_isStill:
  "isStill (detectionTrigger cv inp s warped c t) = isStill t"
  by (simp add: detectionTrigger_def detectDart_isStill split: option.splits)

lemma checkDimensions_refs:
  "prevWarpedFrameRef (checkDimensions inp s t) = prevWarpedFrameRef t"
  "lastDetectionTimeRef (checkDimensions inp s t) = lastDetectionTimeRef t"
  "isStill (checkDimensions inp s t) = isStill t"
  "detectAttempts (checkDimensions inp s t) = detectAttempts t"
  "detections (checkDimensions inp s t) = detections t"
  by (simp_all add: checkDimensions_def resetCalibration_def split: option.splits)

lemma processFrame_warped:
  assumes "cvLoaded s" "canvasPresent inp" "isConnected s" "ctxPresent inp" "naturalWidth inp \<noteq> 0"
    and "\<not> isCalibrating s" "calibrationData s = Some cd" "homographyMatrix cd = Some H"
  shows "processFrame cv inp s
         = warpedFeed cv inp s H (checkDimensions inp s (s\<lparr>processingScheduled := False\<rparr>))"
  using assms by (simp add: processFrame_def Let_def)

lemma detectionTrigger_cooldown:
  "\<not> (now inp - lastDetectionTimeRef t > detectionCooldownMs) \<Longrightarrow>
     detectionTrigger cv inp s warped True t = t"
  by (simp add: detectionTrigger_def)

lemma stillnessCheck_cooldown:
  "\<not> (now inp - lastDetectionTimeRef t > detectionCooldownMs) \<Longrightarrow>
     stillnessCheck cv inp s warped t = (True, if \<not> isStill s then t\<lparr>isStill := True\<rparr> else t)"
  by (simp add: stillnessCheck_def)

lemma warpedFeed_cooldown:
  assumes "warpPerspective cv (img inp) H = Some warped"
    and "\<not> (now inp - lastDetectionTimeRef t > detectionCooldownMs)"
  shows "warpedFeed cv inp s H t =
     (if \<not> isStill s
      then t\<lparr>canvas := Some (WarpedFeed warped), isStill := True,
             prevWarpedFrameRef := Some warped\<rparr>
      else t\<lparr>canvas := Some (WarpedFeed warped), prevWarpedFrameRef := Some warped\<rparr>)"
  using assms by (simp add: warpedFeed_def Let_def stillnessCheck_cooldown detectionTrigger_cooldown)

text \<open>
  Claim C7. After every call of the detection routine on a pair of frames (taken after and
  before the throw), whether a contour and a tip were found or not, and whether the
  library threw or not, the reference frame held for the next throw is the frame taken
  after the throw. This holds for the detectDart of both variants of the detector.
\<close>

theorem detectDart_advances_reference:
  "stillFrameBeforeDartRef (detectDart cv tnow frameAfter frameBefore t) = Some frameAfter
 \<and> stillFrameBeforeDartRef (detectDart_lowest cv frameAfter frameBefore t) = Some frameAfter"
  by (simp add: detectDart_def detectDart_lowest_def Let_def)

text \<open>
  Claim C3. The state machine starts in state Moving (\<^verbatim>\<open>isStill\<close> is false). At every
  frame that is warped outside the cooldown window and compared with a previous warped
  frame, the next state is Still exactly when the mean difference is below the motion
  threshold: one quiet observation in state Moving gives Still, one active observation in
  state Still gives Moving, and an observation that agrees with the state leaves it.
\<close>

theorem stillness_transitions:
  assumes "cvLoaded s" "canvasPresent inp" "isConnected s" "ctxPresent inp" "naturalWidth inp \<noteq> 0"
    and "\<not> isCalibrating s" "calibrationData s = Some cd" "homographyMatrix cd = Some H"
    and "warpPerspective cv (img inp) H = Some warped"
    and "prevWarpedFrameRef s = Some prev"
    and "now inp - lastDetectionTimeRef s > detectionCooldownMs"
  shows "\<not> isStill (initialState stored :: 'm DetectorState)
       \<and> isStill (processFrame cv inp s) = (meanDiff cv warped prev < motionThreshold)"
proof -
  define t where
    "t = (checkDimensions inp s (s\<lparr>processingScheduled := False\<rparr>))\<lparr>canvas := Some (WarpedFeed warped)\<rparr>"
  have p: "prevWarpedFrameRef t = Some prev"
    and l: "lastDetectionTimeRef t = lastDetectionTimeRef s"
    and i: "isStill t = isStill s"
    using assms(10) by (simp_all add: t_def checkDimensions_refs)
  have sc: "isStill (snd (stillnessCheck cv inp s warped t))
            = (meanDiff cv warped prev < motionThreshold)"
    using p l i assms(11) by (auto simp: stillnessCheck_def Let_def)
  have "processFrame cv inp s
        = warpedFeed cv inp s H (checkDimensions inp s (s\<lparr>processingScheduled := False\<rparr>))"
    using assms(1-8) by (rule processFrame_warped)
  then have "isStill (processFrame cv inp s) = isStill (snd (stillnessCheck cv inp s warped t))"
    using assms(9)
    by (simp add: warpedFeed_def Let_def t_def detectionTrigger_isStill split: prod.splits)
  with sc show ?thesis by (simp add: initialState_def)
qed

text \<open>
  In state Moving a frame equal to the previous one gives Still; in state Still a frame
  that differs gives Moving.
\<close>

theorem stillness_transitions_witness:
  "\<not> isStill fixtureState
 \<and> isStill (processFrame fixtureCv (fixtureFrame 7 640 480 6000) fixtureState)
 \<and> \<not> isStill (processFrame fixtureCv (fixtureFrame 8 640 480 6000)
        (fixtureState\<lparr>isStill := True\<rparr>))"
proof -
  have a: "\<not> isStill fixtureState" by (simp add: fixtureState_def initialState_def)
  have "isStill (processFrame fixtureCv (fixtureFrame 7 640 480 6000) fixtureState)
           = (meanDiff fixtureCv 1007 1007 < motionThreshold)"
    using stillness_transitions [of fixtureState "fixtureFrame 7 640 480 6000" fixtureCalibration
        "[1, 0, 0, 0, 1, 0, 0, 0, 1]" fixtureCv 1007 1007]
    by (simp add: fixtureState_def initialState_def fixtureFrame_def fixtureCalibration_def
        fixtureCv_def detectionCooldownMs_def)
  then have b: "isStill (processFrame fixtureCv (fixtureFrame 7 640 480 6000) fixtureState)"
    by (simp add: fixtureCv_def motionThreshold_def)
  have "isStill (processFrame fixtureCv (fixtureFrame 8 640 480 6000)
          (fixtureState\<lparr>isStill := True\<rparr>))
           = (meanDiff fixtureCv 1008 1007 < motionThreshold)"
    using stillness_transitions [of "fixtureState\<lparr>isStill := True\<rparr>"
        "fixtureFrame 8 640 480 6000" fixtureCalibration "[1, 0, 0, 0, 1, 0, 0, 0, 1]"
        fixtureCv 1008 1007]
    by (simp add: fixtureState_def initialState_def fixtureFrame_def fixtureCalibration_def
        fixtureCv_def detectionCooldownMs_def)
  then have c: "\<not> isStill (processFrame fixtureCv (fixtureFrame 8 640 480 6000)
      (fixtureState\<lparr>isStill := True\<rparr>))"
    by (simp add: fixtureCv_def motionThreshold_def)
  show ?thesis using a b c by simp
qed

text \<open>
  One frame that is warped within 1000 ms of the time of the last detection: the next
  state is Still, detectDart is not called, and the outcome is the same whatever the mean
  difference and the contours of the frames are.
\<close>

lemma cooldown_single_frame:
  assumes "cvLoaded s" "canvasPresent inp" "isConnected s" "ctxPresent inp" "naturalWidth inp \<noteq> 0"
    and "\<not> isCalibrating s" "calibrationData s = Some cd" "homographyMatrix cd = Some H"
    and "warpPerspective cv (img inp) H = Some warped"
    and "now inp - lastDetectionTimeRef s \<le> detectionCooldownMs"
  shows "isStill (processFrame cv inp s)
       \<and> detectAttempts (processFrame cv inp s) = detectAttempts s
       \<and> detections (processFrame cv inp s) = detections s
       \<and> lastDetectionTimeRef (processFrame cv inp s) = lastDetectionTimeRef s
       \<and> processFrame (cv\<lparr>meanDiff := md, diffContours := dc\<rparr>) inp s = processFrame cv inp s"
proof -
  define t where "t = checkDimensions inp s (s\<lparr>processingScheduled := False\<rparr>)"
  have l: "\<not> (now inp - lastDetectionTimeRef t > detectionCooldownMs)"
    using assms(10) by (simp add: t_def checkDimensions_refs)
  have i: "isStill t = isStill s" "detectAttempts t = detectAttempts s"
    "detections t = detections s" "lastDetectionTimeRef t = lastDetectionTimeRef s"
    by (simp_all add: t_def checkDimensions_refs)
  have pf: "processFrame cv inp s = warpedFeed cv inp s H t"
    unfolding t_def using assms(1-8) by (rule processFrame_warped)
  have pf': "processFrame (cv\<lparr>meanDiff := md, diffContours := dc\<rparr>) inp s
             = warpedFeed (cv\<lparr>meanDiff := md, diffContours := dc\<rparr>) inp s H t"
    unfolding t_def using assms(1-8) by (rule processFrame_warped)
  have w: "warpPerspective (cv\<lparr>meanDiff := md, diffContours := dc\<rparr>) (img inp) H = Some warped"
    using assms(9) by simp
  show ?thesis
    using i by (simp add: pf pf' warpedFeed_cooldown [OF assms(9) l] warpedFeed_cooldown [OF w l])
qed

text \<open>
  Over a whole sequence of frames of a calibrated detector, all of them within 1000 ms of
  the time of the last detection, no detection is attempted and the state ends Still.
\<close>

lemma checkDimensions_same:
  "calibrationData s = Some cd \<Longrightarrow> naturalWidth inp = width (sourceDimensions cd) \<Longrightarrow>
   naturalHeight inp = height (sourceDimensions cd) \<Longrightarrow> checkDimensions inp s t = t"
  by (simp add: checkDimensions_def dimensionsChanged_def)

lemma cooldown_frame:
  assumes "cvLoaded s" "isConnected s" "\<not> isCalibrating s"
    and "calibrationData s = Some cd" "homographyMatrix cd = Some H"
    and "rectifiable cv cd H inp"
    and "now inp - lastDetectionTimeRef s \<le> detectionCooldownMs"
  shows "cvLoaded (processFrame cv inp s) \<and> isConnected (processFrame cv inp s)
       \<and> \<not> isCalibrating (processFrame cv inp s)
       \<and> calibrationData (processFrame cv inp s) = Some cd
       \<and> lastDetectionTimeRef (processFrame cv inp s) = lastDetectionTimeRef s
       \<and> detectAttempts (processFrame cv inp s) = detectAttempts s
       \<and> detections (processFrame cv inp s) = detections s
       \<and> isStill (processFrame cv inp s)"
proof -
  from assms(6) obtain warped where w: "warpPerspective cv (img inp) H = Some warped"
    and g: "canvasPresent inp" "ctxPresent inp" "naturalWidth inp \<noteq> 0"
    and d: "naturalWidth inp = width (sourceDimensions cd)"
       "naturalHeight inp = height (sourceDimensions cd)"
    by (auto simp: rectifiable_def)
  define t where "t = s\<lparr>processingScheduled := False\<rparr>"
  have c: "checkDimensions inp s t = t" using assms(4) d by (rule checkDimensions_same)
  have l: "\<not> (now inp - lastDetectionTimeRef t > detectionCooldownMs)"
    using assms(7) by (simp add: t_def)
  have pf: "processFrame cv inp s = warpedFeed cv inp s H t"
    using processFrame_warped [OF assms(1) g(1) assms(2) g(2) g(3) assms(3) assms(4) assms(5), of cv] c
    by (simp add: t_def)
  have t: "cvLoaded t" "isConnected t" "\<not> isCalibrating t" "calibrationData t = Some cd"
    "lastDetectionTimeRef t = lastDetectionTimeRef s" "detectAttempts t = detectAttempts s"
    "detections t = detections s" "isStill t = isStill s"
    using assms(1-4) by (simp_all add: t_def)
  show ?thesis
    unfolding pf warpedFeed_cooldown [OF w l] using t by simp
qed

lemma cooldown_window_trace:
  assumes "cvLoaded s" "isConnected s" "\<not> isCalibrating s"
    and "calibrationData s = Some cd" "homographyMatrix cd = Some H"
    and "\<forall>inp \<in> set inps. rectifiable cv cd H inp
            \<and> now inp - lastDetectionTimeRef s \<le> detectionCooldownMs"
  shows "detectAttempts (processFrames cv inps s) = detectAttempts s
       \<and> detections (processFrames cv inps s) = detections s
       \<and> lastDetectionTimeRef (processFrames cv inps s) = lastDetectionTimeRef s
       \<and> (inps \<noteq> [] \<longrightarrow> isStill (processFrames cv inps s))"
  using assms
proof (induction inps arbitrary: s)
  case Nil
  then show ?case by simp
next
  case (Cons inp inps)
  from Cons.prems(6) have r: "rectifiable cv cd H inp"
    and n: "now inp - lastDetectionTimeRef s \<le> detectionCooldownMs" by simp_all
  define s1 where "s1 = processFrame cv inp s"
  from cooldown_frame [OF Cons.prems(1-5) r n]
  have inv: "cvLoaded s1" "isConnected s1" "\<not> isCalibrating s1" "calibrationData s1 = Some cd"
    "lastDetectionTimeRef s1 = lastDetectionTimeRef s" "detectAttempts s1 = detectAttempts s"
    "detections s1 = detections s" "isStill s1"
    by (simp_all add: s1_def)
  have rest: "\<forall>i \<in> set inps. rectifiable cv cd H i
            \<and> now i - lastDetectionTimeRef s1 \<le> detectionCooldownMs"
    using Cons.prems(6) inv(5) by simp
  from Cons.IH [OF inv(1-4) Cons.prems(5) rest]
  have ih: "detectAttempts (processFrames cv inps s1) = detectAttempts s1
       \<and> detections (processFrames cv inps s1) = detections s1
       \<and> lastDetectionTimeRef (processFrames cv inps s1) = lastDetectionTimeRef s1
       \<and> (inps \<noteq> [] \<longrightarrow> isStill (processFrames cv inps s1))" .
  show ?case
  proof (cases "inps = []")
    case True
    with inv show ?thesis by (simp add: s1_def [symmetric])
  next
    case False
    with ih inv show ?thesis by (simp add: s1_def [symmetric])
  qed
qed

text \<open>
  A successful detection is a call of detectDart that finds a tip: it reports a score to
  \<^verbatim>\<open>onDetectionUpdate\<close> and sets the time of the last detection.
\<close>

lemma detectDart_detection_time:
  assumes "detections (detectDart cv tnow a b t) \<noteq> detections t"
  shows "lastDetectionTimeRef (detectDart cv tnow a b t) = tnow"
proof (cases "diffContours cv 15 a b")
  case None
  with assms show ?thesis by (simp add: detectDart_def Let_def)
next
  case (Some contours)
  note dc = this
  show ?thesis
  proof (cases "fst (largestLoop (contourArea cv) contours (None, 0))")
    case None
    with dc assms show ?thesis by (simp add: detectDart_def Let_def)
  next
    case (Some largestContour)
    note lc = this
    show ?thesis
    proof (cases "findDartTip (moments cv) largestContour")
      case None
      with dc lc assms show ?thesis
        by (cases "m00 (moments cv largestContour) = 0") (simp_all add: detectDart_def Let_def)
    next
      case (Some tp)
      with dc lc show ?thesis by (simp add: detectDart_def Let_def)
    qed
  qed
qed

lemma detectDart_fields:
  "cvLoaded (detectDart cv tnow a b t) = cvLoaded t"
  "isConnected (detectDart cv tnow a b t) = isConnected t"
  "isCalibrating (detectDart cv tnow a b t) = isCalibrating t"
  "calibrationData (detectDart cv tnow a b t) = calibrationData t"
  by (simp_all add: detectDart_def Let_def split: option.splits)

lemma detectionTrigger_detection_time:
  assumes "detections (detectionTrigger cv inp s warped c t) \<noteq> detections t"
  shows "lastDetectionTimeRef (detectionTrigger cv inp s warped c t) = detectNow inp"
proof (cases "c \<and> \<not> isStill s \<and> now inp - lastDetectionTimeRef t > detectionCooldownMs")
  case True
  note tr = this
  show ?thesis
  proof (cases "stillFrameBeforeDartRef t")
    case None
    with tr assms show ?thesis by (simp add: detectionTrigger_def)
  next
    case (Some before)
    define t' where "t' = t\<lparr>stillFrameAfterDartRef := Some warped\<rparr>"
    have e: "detectionTrigger cv inp s warped c t = detectDart cv (detectNow inp) warped before t'"
      using tr Some by (simp add: detectionTrigger_def t'_def)
    have "detections (detectDart cv (detectNow inp) warped before t') \<noteq> detections t'"
      using assms by (simp add: e t'_def)
    then show ?thesis unfolding e by (rule detectDart_detection_time)
  qed
next
  case False
  with assms show ?thesis by (auto simp: detectionTrigger_def split: option.splits)
qed

lemma detectionTrigger_fields:
  "cvLoaded (detectionTrigger cv inp s warped c t) = cvLoaded t"
  "isConnected (detectionTrigger cv inp s warped c t) = isConnected t"
  "isCalibrating (detectionTrigger cv inp s warped c t) = isCalibrating t"
  "calibrationData (detectionTrigger cv inp s warped c t) = calibrationData t"
  by (simp_all add: detectionTrigger_def detectDart_fields split: option.splits)

lemma stillnessCheck_fields:
  "cvLoaded (snd (stillnessCheck cv inp s warped t)) = cvLoaded t"
  "isConnected (snd (stillnessCheck cv inp s warped t)) = isConnected t"
  "isCalibrating (snd (stillnessCheck cv inp s warped t)) = isCalibrating t"
  "calibrationData (snd (stillnessCheck cv inp s warped t)) = calibrationData t"
  "detections (snd (stillnessCheck cv inp s warped t)) = detections t"
  by (simp_all add: stillnessCheck_def Let_def split: option.splits)

lemma warpedFeed_fields:
  "cvLoaded (warpedFeed cv inp s H t) = cvLoaded t
 \<and> isConnected (warpedFeed cv inp s H t) = isConnected t
 \<and> isCalibrating (warpedFeed cv inp s H t) = isCalibrating t
 \<and> calibrationData (warpedFeed cv inp s H t) = calibrationData t"
proof (cases "warpPerspective cv (img inp) H")
  case None
  then show ?thesis by (simp add: warpedFeed_def)
next
  case (Some warped)
  define t1 where "t1 = t\<lparr>canvas := Some (WarpedFeed warped)\<rparr>"
  obtain c t2 where sc: "stillnessCheck cv inp s warped t1 = (c, t2)"
    by (cases "stillnessCheck cv inp s warped t1") auto
  have f: "cvLoaded t2 = cvLoaded t" "isConnected t2 = isConnected t"
    "isCalibrating t2 = isCalibrating t" "calibrationData t2 = calibrationData t"
    using stillnessCheck_fields(1-4) [of cv inp s warped t1] sc by (simp_all add: t1_def)
  have wf: "warpedFeed cv inp s H t
            = (detectionTrigger cv inp s warped c t2)\<lparr>prevWarpedFrameRef := Some warped\<rparr>"
    using Some sc by (simp add: warpedFeed_def Let_def t1_def)
  show ?thesis by (simp add: wf detectionTrigger_fields f)
qed

lemma warpedFeed_detection_time:
  assumes "detections (warpedFeed cv inp s H t) \<noteq> detections t"
  shows "lastDetectionTimeRef (warpedFeed cv inp s H t) = detectNow inp"
proof (cases "warpPerspective cv (img inp) H")
  case None
  with assms show ?thesis by (simp add: warpedFeed_def)
next
  case (Some warped)
  define t1 where "t1 = t\<lparr>canvas := Some (WarpedFeed warped)\<rparr>"
  obtain c t2 where sc: "stillnessCheck cv inp s warped t1 = (c, t2)"
    by (cases "stillnessCheck cv inp s warped t1") auto
  have d2: "detections t2 = detections t"
    using stillnessCheck_fields(5) [of cv inp s warped t1] sc by (simp add: t1_def)
  have wf: "warpedFeed cv inp s H t
            = (detectionTrigger cv inp s warped c t2)\<lparr>prevWarpedFrameRef := Some warped\<rparr>"
    using Some sc by (simp add: warpedFeed_def Let_def t1_def)
  from assms have "detections (detectionTrigger cv inp s warped c t2) \<noteq> detections t2"
    by (simp add: wf d2)
  then have "lastDetectionTimeRef (detectionTrigger cv inp s warped c t2) = detectNow inp"
    by (rule detectionTrigger_detection_time)
  then show ?thesis by (simp add: wf)
qed

lemma processFrame_rectifiable:
  assumes "cvLoaded s" "isConnected s" "\<not> isCalibrating s"
    and "calibrationData s = Some cd" "homographyMatrix cd = Some H"
    and "rectifiable cv cd H inp"
  shows "processFrame cv inp s = warpedFeed cv inp s H (s\<lparr>processingScheduled := False\<rparr>)"
proof -
  from assms(6) have g: "canvasPresent inp" "ctxPresent inp" "naturalWidth inp \<noteq> 0"
    and d: "naturalWidth inp = width (sourceDimensions cd)"
       "naturalHeight inp = height (sourceDimensions cd)"
    by (auto simp: rectifiable_def)
  have c: "checkDimensions inp s (s\<lparr>processingScheduled := False\<rparr>) = s\<lparr>processingScheduled := False\<rparr>"
    using assms(4) d by (rule checkDimensions_same)
  show ?thesis
    using processFrame_warped [OF assms(1) g(1) assms(2) g(2) g(3) assms(3) assms(4) assms(5), of cv] c
    by simp
qed

lemma detection_frame:
  assumes "cvLoaded s" "isConnected s" "\<not> isCalibrating s"
    and "calibrationData s = Some cd" "homographyMatrix cd = Some H"
    and "rectifiable cv cd H inp"
    and "detections (processFrame cv inp s) \<noteq> detections s"
  shows "lastDetectionTimeRef (processFrame cv inp s) = detectNow inp
       \<and> cvLoaded (processFrame cv inp s) \<and> isConnected (processFrame cv inp s)
       \<and> \<not> isCalibrating (processFrame cv inp s)
       \<and> calibrationData (processFrame cv inp s) = Some cd"
proof -
  define t where "t = s\<lparr>processingScheduled := False\<rparr>"
  have pf: "processFrame cv inp s = warpedFeed cv inp s H t"
    unfolding t_def using assms(1-6) by (rule processFrame_rectifiable)
  have "detections (warpedFeed cv inp s H t) \<noteq> detections t"
    using assms(7) by (simp add: pf t_def)
  then have "lastDetectionTimeRef (warpedFeed cv inp s H t) = detectNow inp"
    by (rule warpedFeed_detection_time)
  then show ?thesis
    using assms(1-4) by (simp add: pf warpedFeed_fields t_def)
qed

lemma cooldown_frame_independent:
  assumes "cvLoaded s" "isConnected s" "\<not> isCalibrating s"
    and "calibrationData s = Some cd" "homographyMatrix cd = Some H"
    and "rectifiable cv cd H inp"
    and "now inp - lastDetectionTimeRef s \<le> detectionCooldownMs"
  shows "processFrame (cv\<lparr>meanDiff := md, diffContours := dc\<rparr>) inp s = processFrame cv inp s"
proof -
  from assms(6) obtain warped where w: "warpPerspective cv (img inp) H = Some warped"
    by (auto simp: rectifiable_def)
  have r': "rectifiable (cv\<lparr>meanDiff := md, diffContours := dc\<rparr>) cd H inp"
    using assms(6) by (simp add: rectifiable_def)
  have w': "warpPerspective (cv\<lparr>meanDiff := md, diffContours := dc\<rparr>) (img inp) H = Some warped"
    using w by simp
  define t where "t = s\<lparr>processingScheduled := False\<rparr>"
  have l: "\<not> (now inp - lastDetectionTimeRef t > detectionCooldownMs)"
    using assms(7) by (simp add: t_def)
  have "processFrame cv inp s = warpedFeed cv inp s H t"
    unfolding t_def using assms(1-6) by (rule processFrame_rectifiable)
  moreover have "processFrame (cv\<lparr>meanDiff := md, diffContours := dc\<rparr>) inp s
        = warpedFeed (cv\<lparr>meanDiff := md, diffContours := dc\<rparr>) inp s H t"
    unfolding t_def using assms(1-5) r' by (rule processFrame_rectifiable)
  ultimately show ?thesis
    by (simp add: warpedFeed_cooldown [OF w l] warpedFeed_cooldown [OF w' l])
qed

lemma cooldown_window_independent:
  assumes "cvLoaded s" "isConnected s" "\<not> isCalibrating s"
    and "calibrationData s = Some cd" "homographyMatrix cd = Some H"
    and "\<forall>inp \<in> set inps. rectifiable cv cd H inp
            \<and> now inp - lastDetectionTimeRef s \<le> detectionCooldownMs"
  shows "processFrames (cv\<lparr>meanDiff := md, diffContours := dc\<rparr>) inps s = processFrames cv inps s"
  using assms
proof (induction inps arbitrary: s)
  case Nil
  then show ?case by simp
next
  case (Cons inp inps)
  from Cons.prems(6) have r: "rectifiable cv cd H inp"
    and n: "now inp - lastDetectionTimeRef s \<le> detectionCooldownMs" by simp_all
  define s1 where "s1 = processFrame cv inp s"
  have eq: "processFrame (cv\<lparr>meanDiff := md, diffContours := dc\<rparr>) inp s = s1"
    unfolding s1_def using Cons.prems(1-5) r n by (rule cooldown_frame_independent)
  from cooldown_frame [OF Cons.prems(1-5) r n]
  have inv: "cvLoaded s1" "isConnected s1" "\<not> isCalibrating s1" "calibrationData s1 = Some cd"
    "lastDetectionTimeRef s1 = lastDetectionTimeRef s"
    by (simp_all add: s1_def)
  have rest: "\<forall>i \<in> set inps. rectifiable cv cd H i
            \<and> now i - lastDetectionTimeRef s1 \<le> detectionCooldownMs"
    using Cons.prems(6) inv(5) by simp
  from Cons.IH [OF inv(1-4) Cons.prems(5) rest] eq show ?case by (simp add: s1_def)
qed

text \<open>
  Claim C4. When a frame of a calibrated detector has led to a successful detection, the
  time of the last detection is the time of that detection, and over every sequence of
  later frames that are warped within the cooldown window (at most 1000 ms after that
  time) detectDart is not called again (no attempt is logged, no score is reported), the
  state is held at Still, and the motion is not evaluated: the outcome is the same
  whatever the mean differences and the contours of the frames are.
\<close>

theorem cooldown_after_detection:
  assumes "cvLoaded s" "isConnected s" "\<not> isCalibrating s"
    and "calibrationData s = Some cd" "homographyMatrix cd = Some H"
    and "rectifiable cv cd H inp0"
    and "detections (processFrame cv inp0 s) \<noteq> detections s"
    and "\<forall>inp \<in> set inps. rectifiable cv cd H inp
            \<and> now inp - detectNow inp0 \<le> detectionCooldownMs"
  shows "lastDetectionTimeRef (processFrame cv inp0 s) = detectNow inp0
       \<and> detectAttempts (processFrames cv inps (processFrame cv inp0 s))
           = detectAttempts (processFrame cv inp0 s)
       \<and> detections (processFrames cv inps (processFrame cv inp0 s))
           = detections (processFrame cv inp0 s)
       \<and> (inps \<noteq> [] \<longrightarrow> isStill (processFrames cv inps (processFrame cv inp0 s)))
       \<and> processFrames (cv\<lparr>meanDiff := md, diffContours := dc\<rparr>) inps (processFrame cv inp0 s)
           = processFrames cv inps (processFrame cv inp0 s)"
proof -
  define s1 where "s1 = processFrame cv inp0 s"
  from detection_frame [OF assms(1-7)]
  have l: "lastDetectionTimeRef s1 = detectNow inp0"
    and inv: "cvLoaded s1" "isConnected s1" "\<not> isCalibrating s1" "calibrationData s1 = Some cd"
    by (simp_all add: s1_def)
  have w: "\<forall>inp \<in> set inps. rectifiable cv cd H inp
            \<and> now inp - lastDetectionTimeRef s1 \<le> detectionCooldownMs"
    using assms(8) l by simp
  from cooldown_window_trace [OF inv assms(5) w]
    cooldown_window_independent [OF inv assms(5) w, where md = md and dc = dc] l
  show ?thesis by (simp add: s1_def)
qed

text \<open>
  A frame at 6000 ms settles, a tip is found and the detection is timed 6001 ms; over
  five later frames up to 7001 ms, whose contents change and settle in turn, there is no
  second attempt and the state is Still.
\<close>

theorem cooldown_after_detection_witness:
  "detections (processFrame detectingCv (fixtureFrame 7 640 480 6000) fixtureState) \<noteq> []
 \<and> detectAttempts (processFrame detectingCv (fixtureFrame 7 640 480 6000) fixtureState) = 1
 \<and> lastDetectionTimeRef (processFrame detectingCv (fixtureFrame 7 640 480 6000) fixtureState) = 6001
 \<and> detectAttempts (processFrames detectingCv oscillatingFrames
       (processFrame detectingCv (fixtureFrame 7 640 480 6000) fixtureState)) = 1
 \<and> isStill (processFrames detectingCv oscillatingFrames
       (processFrame detectingCv (fixtureFrame 7 640 480 6000) fixtureState))"
proof -
  define s1 where "s1 = processFrame detectingCv (fixtureFrame 7 640 480 6000) fixtureState"
  have tip: "findDartTip triangleMoments [(0, 0), (4, 0), (4, 3)] = Some \<lparr>px = 0, py = 0\<rparr>"
    by (simp add: findDartTip_def triangleMoments_def Let_def contourPoint_def distanceSq_def)
  have d: "detections s1 \<noteq> []" and a: "detectAttempts s1 = 1"
    unfolding s1_def
    by (simp_all add: processFrame_def Let_def checkDimensions_def dimensionsChanged_def
        warpedFeed_def stillnessCheck_def detectionTrigger_def detectDart_def tip
        fixtureState_def initialState_def fixtureFrame_def fixtureCalibration_def detectingCv_def
        detectionCooldownMs_def motionThreshold_def triangleMoments_def)
  have g: "cvLoaded fixtureState" "isConnected fixtureState" "\<not> isCalibrating fixtureState"
    "calibrationData fixtureState = Some fixtureCalibration"
    "homographyMatrix fixtureCalibration = Some [1, 0, 0, 0, 1, 0, 0, 0, 1]"
    "detections fixtureState = []"
    by (simp_all add: fixtureState_def initialState_def fixtureCalibration_def)
  have r0: "rectifiable detectingCv fixtureCalibration [1, 0, 0, 0, 1, 0, 0, 0, 1]
      (fixtureFrame 7 640 480 6000)"
    by (simp add: rectifiable_def fixtureFrame_def fixtureCalibration_def detectingCv_def)
  have d': "detections (processFrame detectingCv (fixtureFrame 7 640 480 6000) fixtureState)
      \<noteq> detections fixtureState"
    using d g(6) by (simp add: s1_def)
  have w: "\<forall>inp \<in> set oscillatingFrames.
      rectifiable detectingCv fixtureCalibration [1, 0, 0, 0, 1, 0, 0, 0, 1] inp
      \<and> now inp - detectNow (fixtureFrame 7 640 480 6000) \<le> detectionCooldownMs"
    by (simp add: oscillatingFrames_def rectifiable_def fixtureFrame_def fixtureCalibration_def
        detectingCv_def detectionCooldownMs_def)
  have ne: "oscillatingFrames \<noteq> []" by (simp add: oscillatingFrames_def)
  from cooldown_after_detection [OF g(1-5) r0 d' w] ne d a
  show ?thesis by (simp add: s1_def fixtureFrame_def)
qed

text \<open>
  Claim C2 asks that a frame whose dimensions differ from those of the calibration is
  not warped and not fed to the state machine. The code resets the calibration, which
  takes effect at the next render, and goes on with the calibration of the current
  render: a 1280 x 720 frame met by a detector calibrated for 640 x 480 is warped and
  shown, compared with the previous warped frame (the state becomes Still and a detection
  is attempted) and kept as the previous frame, while the record and the stored item are
  removed and the error message is cleared by the reset.
\<close>

theorem processFrame_warps_mismatched_frame:
  "canvas (processFrame fixtureCv (fixtureFrame 7 1280 720 6000) fixtureState)
     = Some (WarpedFeed 1007)
 \<and> prevWarpedFrameRef (processFrame fixtureCv (fixtureFrame 7 1280 720 6000) fixtureState)
     = Some 1007
 \<and> isStill (processFrame fixtureCv (fixtureFrame 7 1280 720 6000) fixtureState)
 \<and> detectAttempts (processFrame fixtureCv (fixtureFrame 7 1280 720 6000) fixtureState) = 1
 \<and> calibrationData (processFrame fixtureCv (fixtureFrame 7 1280 720 6000) fixtureState) = None
 \<and> storage (processFrame fixtureCv (fixtureFrame 7 1280 720 6000) fixtureState) = None
 \<and> error (processFrame fixtureCv (fixtureFrame 7 1280 720 6000) fixtureState) = None"
  by (simp add: processFrame_def Let_def checkDimensions_def dimensionsChanged_def
      resetCalibration_def warpedFeed_def stillnessCheck_def detectionTrigger_def detectDart_def
      fixtureState_def initialState_def fixtureFrame_def fixtureCalibration_def fixtureCv_def
      detectionCooldownMs_def motionThreshold_def)

section \<open>Properties of the calibration\<close>

text \<open>
  Claim C6 asks that a failed solve discards the four collected points. The code sets
  the error message and changes nothing else: the detector stays in calibration mode, the
  earlier record and the stored item stay, and the four clicked points stay too, so that
  the next click is ignored by handleCanvasClick.
\<close>

theorem failed_solve_keeps_clicked_points:
  "clickedPoints failedSolve = collinearClicks
 \<and> length (clickedPoints failedSolve) = 4
 \<and> handleCanvasClick True \<lparr>px = 320, py = 20\<rparr> failedSolve = failedSolve
 \<and> isCalibrating failedSolve
 \<and> error failedSolve
     = Some ''Calibration failed. Could not calculate perspective. Try clicking points again.''
 \<and> calibrationData failedSolve = Some fixtureCalibration
 \<and> storage failedSolve = Some ''stored''"
  by (simp add: failedSolve_def calculateAndStoreHomography_def handleCanvasClick_def
      fixtureCv_def fixtureState_def initialState_def collinearClicks_def
      CALIBRATION_POINTS_REQUIRED_def)

section \<open>Properties of the loading of the stored calibration\<close>

lemma basicValidation_fieldsPresent:
  "basicValidation v = (if v = JNull then Inl TypeError else Inr (fieldsPresent v))"
  by (cases v)
    (auto simp: basicValidation_def fieldsPresent_def fieldTruthy_def split: option.splits)

text \<open>
  Claim C8 as stated fails: a stored record with no image point and no world point is
  restored.
\<close>

theorem loadPersisted_restores_without_points:
  "restored (loadPersisted (\<lambda>str. Inr fixtureStored) (Some ''{...}'')) = Some fixtureStored
 \<and> \<not> spec_structurallyValid fixtureStored"
  by (simp add: loadPersisted_def basicValidation_def fixtureStored_def
      spec_structurallyValid_def arrayField_def)

text \<open>
  Claim C8, amended. For a stored item that is not the empty string, the start-up
  effect restores the parsed value if and only if the item parses to an object whose
  properties \<^verbatim>\<open>imagePoints\<close>, \<^verbatim>\<open>worldPoints\<close> and \<^verbatim>\<open>homographyMatrix\<close> are all present
  and truthy (the number of points is not checked); a value that is restored is the
  parsed one and the item stays; when nothing is restored the item is removed.
\<close>

theorem loadPersisted_basic_validation:
  assumes "str \<noteq> []"
  shows "(restored (loadPersisted JSON_parse (Some str)) \<noteq> None
            \<longleftrightarrow> (\<exists>v. JSON_parse str = Inr v \<and> fieldsPresent v))
       \<and> (\<forall>v. restored (loadPersisted JSON_parse (Some str)) = Some v
            \<longrightarrow> JSON_parse str = Inr v
                \<and> storageAfter (loadPersisted JSON_parse (Some str)) = Some str)
       \<and> (restored (loadPersisted JSON_parse (Some str)) = None
            \<longrightarrow> storageAfter (loadPersisted JSON_parse (Some str)) = None)"
proof (cases "JSON_parse str")
  case (Inl e)
  with assms show ?thesis by (simp add: loadPersisted_def)
next
  case (Inr v)
  have np: "\<not> fieldsPresent JNull" by (simp add: fieldsPresent_def fieldTruthy_def)
  show ?thesis
  proof (cases "v = JNull")
    case True
    with Inr assms np show ?thesis
      by (simp add: loadPersisted_def basicValidation_fieldsPresent)
  next
    case False
    with Inr assms show ?thesis
      by (simp add: loadPersisted_def basicValidation_fieldsPresent)
  qed
qed

text \<open>
  A record with the three properties is restored and its item stays; a record with image
  points only is not restored and its item is removed.
\<close>

theorem loadPersisted_basic_validation_witness:
  "restored (loadPersisted (\<lambda>str. Inr fixtureStored) (Some ''{...}'')) \<noteq> None
 \<and> storageAfter (loadPersisted (\<lambda>str. Inr fixtureStored) (Some ''{...}'')) = Some ''{...}''
 \<and> restored (loadPersisted (\<lambda>str. Inr (JObj [(''imagePoints'', JArr [])])) (Some ''{...}'')) = None
 \<and> storageAfter (loadPersisted (\<lambda>str. Inr (JObj [(''imagePoints'', JArr [])])) (Some ''{...}''))
     = None"
proof -
  have f: "fieldsPresent fixtureStored"
    by (simp add: fieldsPresent_def fieldTruthy_def fixtureStored_def)
  have g: "\<not> fieldsPresent (JObj [(''imagePoints'', JArr [])])"
    by (simp add: fieldsPresent_def fieldTruthy_def)
  have ne: "''{...}'' \<noteq> []" by simp
  from loadPersisted_basic_validation [OF ne, of "\<lambda>str. Inr fixtureStored"] f
  have a: "restored (loadPersisted (\<lambda>str. Inr fixtureStored) (Some ''{...}'')) \<noteq> None
      \<and> storageAfter (loadPersisted (\<lambda>str. Inr fixtureStored) (Some ''{...}'')) = Some ''{...}''"
    by auto
  from loadPersisted_basic_validation [OF ne, of "\<lambda>str. Inr (JObj [(''imagePoints'', JArr [])])"] g
  have b: "restored (loadPersisted (\<lambda>str. Inr (JObj [(''imagePoints'', JArr [])])) (Some ''{...}''))
        = None
      \<and> storageAfter (loadPersisted (\<lambda>str. Inr (JObj [(''imagePoints'', JArr [])])) (Some ''{...}''))
        = None"
    by auto
  from a b show ?thesis by simp
qed

end
